theory Spec2Isabelle
  imports Complex_Main
begin

section \<open>Values, errors and the ordered registry\<close>

text \<open>
  The values an option of the model can hold: a string (\<^verbatim>\<open>"Fickian diffusion"\<close>),
  a boolean (\<^verbatim>\<open>False\<close> for "surface form"), an integer (the dimensionality) or
  \<^verbatim>\<open>None\<close>.
\<close>

datatype pyval = PStr string | PBool bool | PInt int | PNone

text \<open>
  Python's \<^verbatim>\<open>v == "text"\<close>: only a string equals a string.
\<close>

fun py_eq_str :: "pyval \<Rightarrow> string \<Rightarrow> bool" where
  "py_eq_str (PStr s) t = (s = t)"
| "py_eq_str (PBool b) t = False"
| "py_eq_str (PInt i) t = False"
| "py_eq_str PNone t = False"

text \<open>
  Python's \<^verbatim>\<open>v == n\<close> for an integer literal \<^verbatim>\<open>n\<close>: a boolean is an integer
  (\<^verbatim>\<open>False == 0\<close> and \<^verbatim>\<open>True == 1\<close> hold), a string and \<^verbatim>\<open>None\<close> never equal
  a number.
\<close>

fun py_eq_int :: "pyval \<Rightarrow> int \<Rightarrow> bool" where
  "py_eq_int (PInt i) n = (i = n)"
| "py_eq_int (PBool b) n = ((if b then 1 else 0) = n)"
| "py_eq_int (PStr s) n = False"
| "py_eq_int PNone n = False"

text \<open>
  Python's \<^verbatim>\<open>v is False\<close>: identity with the singleton \<^verbatim>\<open>False\<close>; the integer
  \<^verbatim>\<open>0\<close> is not \<^verbatim>\<open>False\<close>.
\<close>

definition py_is_False :: "pyval \<Rightarrow> bool" where
  "py_is_False v = (v = PBool False)"

text \<open>
  The errors a call can end with: a missing dictionary key, an attribute read before it
  was set, a write to a model that is built, and whatever else the base class (not part
  of the sources) raises.
\<close>

datatype error = KeyError string | AttributeError string | ImmutableModelError
  | ModelError string

text \<open>
  \<^verbatim>\<open>str.lower()\<close> on ASCII text, as used on the domain names.
\<close>

definition lower_char :: "char \<Rightarrow> char" where
  "lower_char c =
     (let n = (of_char c :: nat) in if 65 \<le> n \<and> n \<le> 90 then char_of (n + 32) else c)"

definition lower :: "string \<Rightarrow> string" where
  "lower s = map lower_char s"

text \<open>
  \<^verbatim>\<open>d[k] = v\<close> on a Python dictionary, which keeps insertion order: a key already
  present keeps its place and takes the new value, a new key goes to the end.
\<close>

fun dict_set :: "'k \<Rightarrow> 'v \<Rightarrow> ('k \<times> 'v) list \<Rightarrow> ('k \<times> 'v) list" where
  "dict_set k v [] = [(k, v)]"
| "dict_set k v (e # es) = (if fst e = k then (k, v) # es else e # dict_set k v es)"

text \<open>Several assignments, one after the other.\<close>

fun dict_set_all :: "('k \<times> 'v) list \<Rightarrow> ('k \<times> 'v) list \<Rightarrow> ('k \<times> 'v) list" where
  "dict_set_all [] d = d"
| "dict_set_all (e # es) d = dict_set_all es (dict_set (fst e) (snd e) d)"

section \<open>Submodels and the model under construction\<close>

text \<open>
  The submodel classes that \<^verbatim>\<open>dfn.py\<close> instantiates, each with the arguments it is
  given: the parameter set \<open>'p\<close>, a domain name, the reactions map \<open>'r\<close>. A submodel
  registered by the base class is a \<open>Base_submodel\<close> over a type \<open>'x\<close> of its own.
\<close>

datatype ('p, 'r, 'x) submodel =
    Porosity_Constant 'p
  | NoConvection 'p
  | ButlerVolmer 'p string string
  | FickianManyParticles 'p string
  | FastManyParticles 'p string
  | Ohm_Full 'p string 'r
  | Ohm_SurfaceForm 'p string
  | Diffusion_Full 'p 'r
  | Conductivity_Full 'p 'r
  | FullDifferential 'p string 'r
  | FullAlgebraic 'p string 'r
  | Base_submodel 'x

type_synonym ('p, 'r, 'x) registry = "(string \<times> ('p, 'r, 'x) submodel) list"

text \<open>
  The attributes of a model object that \<^verbatim>\<open>dfn.py\<close> reads or writes, together with
  the merged equations, variables, boundary and initial conditions (\<open>workspace\<close>) and the
  build flag. \<open>reactions\<close> is \<open>None\<close> until \<^verbatim>\<open>set_reactions\<close> has run. \<open>citations\<close>
  is the list kept by \<^verbatim>\<open>pybamm.citations\<close>, which is not part of the model object and
  is carried along with it here.
\<close>

record ('p, 'r, 'x, 'w) model =
  name :: string
  options :: "string \<rightharpoonup> pyval"
  param :: 'p
  reactions :: "'r option"
  submodels :: "('p, 'r, 'x) registry"
  workspace :: "'w option"
  built :: bool
  citations :: "string list"

text \<open>
  The parts of \<^verbatim>\<open>BaseModel\<close> that \<^verbatim>\<open>DFN\<close> calls and that are not in the sources,
  taken as parameters: the options check of \<^verbatim>\<open>BaseModel.__init__\<close>, the parameter set
  it stores, the reactions map, the entries each inherited setter registers (or the error
  it raises), and the composition that \<^verbatim>\<open>build_model\<close> performs.
\<close>

record ('p, 'r, 'x, 'w) base_model =
  options_setter :: "(string \<rightharpoonup> pyval) option \<Rightarrow> error + (string \<rightharpoonup> pyval)"
  param_of :: "(string \<rightharpoonup> pyval) \<Rightarrow> 'p"
  reactions_of :: "(string \<rightharpoonup> pyval) \<Rightarrow> 'p \<Rightarrow> error + 'r"
  external_circuit ::
    "(string \<rightharpoonup> pyval) \<Rightarrow> 'p \<Rightarrow> 'r option \<Rightarrow> error + (string \<times> 'x) list"
  tortuosity ::
    "(string \<rightharpoonup> pyval) \<Rightarrow> 'p \<Rightarrow> 'r option \<Rightarrow> error + (string \<times> 'x) list"
  thermal ::
    "(string \<rightharpoonup> pyval) \<Rightarrow> 'p \<Rightarrow> 'r option \<Rightarrow> error + (string \<times> 'x) list"
  current_collector ::
    "(string \<rightharpoonup> pyval) \<Rightarrow> 'p \<Rightarrow> 'r option \<Rightarrow> error + (string \<times> 'x) list"
  compose ::
    "(string \<rightharpoonup> pyval) \<Rightarrow> 'p \<Rightarrow> 'r option \<Rightarrow> ('p, 'r, 'x) registry \<Rightarrow> error + 'w"

section \<open>The setters of \<^verbatim>\<open>dfn.py\<close>\<close>

text \<open>
  Running one step after another, stopping at the first error as an exception does.
\<close>

fun and_then :: "error + 'a \<Rightarrow> ('a \<Rightarrow> error + 'b) \<Rightarrow> error + 'b" where
  "and_then (Inl e) f = Inl e"
| "and_then (Inr a) f = f a"

text \<open>\<^verbatim>\<open>self.options[k]\<close>: a missing key raises \<^verbatim>\<open>KeyError\<close>.\<close>

definition get_option :: "('p, 'r, 'x, 'w) model \<Rightarrow> string \<Rightarrow> error + pyval" where
  "get_option m k = (case options m k of None \<Rightarrow> Inl (KeyError k) | Some v \<Rightarrow> Inr v)"

text \<open>\<^verbatim>\<open>self.reactions\<close>: an attribute that exists once \<^verbatim>\<open>set_reactions\<close> has run.\<close>

definition get_reactions :: "('p, 'r, 'x, 'w) model \<Rightarrow> error + 'r" where
  "get_reactions m =
     (case reactions m of None \<Rightarrow> Inl (AttributeError ''reactions'') | Some r \<Rightarrow> Inr r)"

text \<open>
  Modelled from the spec: the class of the model's attributes belongs to the base class,
  which is not in the sources. Following the builder's step 6 and the freeze invariant,
  a write to a model that is built fails with \<^verbatim>\<open>ImmutableModelError\<close> before
  anything is written; a model under construction accepts it.
\<close>

definition writable :: "('p, 'r, 'x, 'w) model \<Rightarrow> error + ('p, 'r, 'x, 'w) model" where
  "writable m = (if built m then Inl ImmutableModelError else Inr m)"

text \<open>
  \<^verbatim>\<open>self.submodels[k] = s\<close>: a write to the model, then the dictionary assignment.
\<close>

definition register ::
  "string \<Rightarrow> ('p, 'r, 'x) submodel \<Rightarrow> ('p, 'r, 'x, 'w) model \<Rightarrow>
   error + ('p, 'r, 'x, 'w) model" where
  "register k s m =
     and_then (writable m) (\<lambda>m'. Inr (m'\<lparr>submodels := dict_set k s (submodels m')\<rparr>))"

definition set_porosity_submodel ::
  "('p, 'r, 'x, 'w) model \<Rightarrow> error + ('p, 'r, 'x, 'w) model" where
  "set_porosity_submodel m = register ''porosity'' (Porosity_Constant (param m)) m"

definition set_convection_submodel ::
  "('p, 'r, 'x, 'w) model \<Rightarrow> error + ('p, 'r, 'x, 'w) model" where
  "set_convection_submodel m = register ''convection'' (NoConvection (param m)) m"

definition set_interfacial_submodel ::
  "('p, 'r, 'x, 'w) model \<Rightarrow> error + ('p, 'r, 'x, 'w) model" where
  "set_interfacial_submodel m =
     and_then
       (register ''negative interface''
          (ButlerVolmer (param m) ''Negative'' ''lithium-ion main'') m) (\<lambda>m1.
       register ''positive interface''
         (ButlerVolmer (param m1) ''Positive'' ''lithium-ion main'') m1)"

definition set_particle_submodel ::
  "('p, 'r, 'x, 'w) model \<Rightarrow> error + ('p, 'r, 'x, 'w) model" where
  "set_particle_submodel m =
     and_then (get_option m ''particle'') (\<lambda>v.
       if py_eq_str v ''Fickian diffusion'' then
         and_then
           (register ''negative particle''
              (FickianManyParticles (param m) ''Negative'') m) (\<lambda>m1.
           register ''positive particle''
             (FickianManyParticles (param m1) ''Positive'') m1)
       else if py_eq_str v ''fast diffusion'' then
         and_then
           (register ''negative particle''
              (FastManyParticles (param m) ''Negative'') m) (\<lambda>m1.
           register ''positive particle''
             (FastManyParticles (param m1) ''Positive'') m1)
       else Inr m)"

definition set_solid_submodel ::
  "('p, 'r, 'x, 'w) model \<Rightarrow> error + ('p, 'r, 'x, 'w) model" where
  "set_solid_submodel m =
     and_then (get_option m ''surface form'') (\<lambda>v.
       and_then
         (if py_is_False v then
            and_then (get_reactions m) (\<lambda>r.
              Inr (Ohm_Full (param m) ''Negative'' r, Ohm_Full (param m) ''Positive'' r))
          else
            Inr (Ohm_SurfaceForm (param m) ''Negative'', Ohm_SurfaceForm (param m) ''Positive''))
         (\<lambda>(submod_n, submod_p).
            and_then (register ''negative electrode'' submod_n m) (\<lambda>m1.
              register ''positive electrode'' submod_p m1)))"

text \<open>
  The body of the two loops over \<^verbatim>\<open>["Negative", "Separator", "Positive"]\<close>; \<open>mk\<close> is
  the class instantiated (\<open>FullDifferential\<close> or \<open>FullAlgebraic\<close>).
\<close>

fun conductivity_loop ::
  "('p \<Rightarrow> string \<Rightarrow> 'r \<Rightarrow> ('p, 'r, 'x) submodel) \<Rightarrow> string list \<Rightarrow>
   ('p, 'r, 'x, 'w) model \<Rightarrow> error + ('p, 'r, 'x, 'w) model" where
  "conductivity_loop mk [] m = Inr m"
| "conductivity_loop mk (domain # domains) m =
     and_then (get_reactions m) (\<lambda>r.
       and_then
         (register (lower domain @ '' electrolyte conductivity'') (mk (param m) domain r) m)
         (conductivity_loop mk domains))"

definition set_electrolyte_submodel ::
  "('p, 'r, 'x, 'w) model \<Rightarrow> error + ('p, 'r, 'x, 'w) model" where
  "set_electrolyte_submodel m =
     and_then (get_reactions m) (\<lambda>r.
       and_then (register ''electrolyte diffusion'' (Diffusion_Full (param m) r) m) (\<lambda>m1.
         and_then (get_option m1 ''surface form'') (\<lambda>v.
           if py_is_False v then
             and_then (get_reactions m1) (\<lambda>r1.
               register ''electrolyte conductivity'' (Conductivity_Full (param m1) r1) m1)
           else if py_eq_str v ''differential'' then
             conductivity_loop FullDifferential [''Negative'', ''Separator'', ''Positive''] m1
           else if py_eq_str v ''algebraic'' then
             conductivity_loop FullAlgebraic [''Negative'', ''Separator'', ''Positive''] m1
           else Inr m1)))"

text \<open>
  \<^verbatim>\<open>pybamm.Geometry(macro, micro)\<close>, kept as the call it is. The property returns
  \<^verbatim>\<open>None\<close> when no branch is taken.
\<close>

datatype geometry = Geometry string string

definition default_geometry :: "('p, 'r, 'x, 'w) model \<Rightarrow> error + geometry option" where
  "default_geometry m =
     and_then (get_option m ''dimensionality'') (\<lambda>dimensionality.
       if py_eq_int dimensionality 0 then Inr (Some (Geometry ''1D macro'' ''1+1D micro''))
       else if py_eq_int dimensionality 1 then
         Inr (Some (Geometry ''1+1D macro'' ''(1+1)+1D micro''))
       else if py_eq_int dimensionality 2 then
         Inr (Some (Geometry ''2+1D macro'' ''(2+1)+1D micro''))
       else Inr None)"

section \<open>The inherited steps and the constructor\<close>

text \<open>
  An inherited setter registers the entries the base class gives for the model's options,
  parameters and reactions, in their order, or raises.
\<close>

fun register_base ::
  "(string \<times> 'x) list \<Rightarrow> ('p, 'r, 'x, 'w) model \<Rightarrow> error + ('p, 'r, 'x, 'w) model" where
  "register_base [] m = Inr m"
| "register_base (e # es) m =
     and_then (register (fst e) (Base_submodel (snd e)) m) (register_base es)"

definition inherited_setter ::
  "((string \<rightharpoonup> pyval) \<Rightarrow> 'p \<Rightarrow> 'r option \<Rightarrow> error + (string \<times> 'x) list) \<Rightarrow>
   ('p, 'r, 'x, 'w) model \<Rightarrow> error + ('p, 'r, 'x, 'w) model" where
  "inherited_setter f m =
     and_then (f (options m) (param m) (reactions m)) (\<lambda>es. register_base es m)"

definition set_external_circuit_submodel ::
  "('p, 'r, 'x, 'w) base_model \<Rightarrow> ('p, 'r, 'x, 'w) model \<Rightarrow> error + ('p, 'r, 'x, 'w) model" where
  "set_external_circuit_submodel b = inherited_setter (external_circuit b)"

definition set_tortuosity_submodels ::
  "('p, 'r, 'x, 'w) base_model \<Rightarrow> ('p, 'r, 'x, 'w) model \<Rightarrow> error + ('p, 'r, 'x, 'w) model" where
  "set_tortuosity_submodels b = inherited_setter (tortuosity b)"

definition set_thermal_submodel ::
  "('p, 'r, 'x, 'w) base_model \<Rightarrow> ('p, 'r, 'x, 'w) model \<Rightarrow> error + ('p, 'r, 'x, 'w) model" where
  "set_thermal_submodel b = inherited_setter (thermal b)"

definition set_current_collector_submodel ::
  "('p, 'r, 'x, 'w) base_model \<Rightarrow> ('p, 'r, 'x, 'w) model \<Rightarrow> error + ('p, 'r, 'x, 'w) model" where
  "set_current_collector_submodel b = inherited_setter (current_collector b)"

definition set_reactions ::
  "('p, 'r, 'x, 'w) base_model \<Rightarrow> ('p, 'r, 'x, 'w) model \<Rightarrow> error + ('p, 'r, 'x, 'w) model" where
  "set_reactions b m =
     and_then (reactions_of b (options m) (param m)) (\<lambda>r.
       and_then (writable m) (\<lambda>m'. Inr (m'\<lparr>reactions := Some r\<rparr>)))"

text \<open>
  Modelled from the spec: \<^verbatim>\<open>BaseModel.__init__\<close> is not in the sources. Following the
  data model, it checks the options (rejecting them or filling in defaults), stores
  them with the name and the parameter set, and starts from an empty registry with no
  reactions map and nothing built.
\<close>

definition base_init ::
  "('p, 'r, 'x, 'w) base_model \<Rightarrow> (string \<rightharpoonup> pyval) option \<Rightarrow> string \<Rightarrow>
   error + ('p, 'r, 'x, 'w) model" where
  "base_init b opts nm =
     and_then (options_setter b opts) (\<lambda>opts'.
       Inr \<lparr>name = nm, options = opts', param = param_of b opts', reactions = None,
            submodels = [], workspace = None, built = False, citations = []\<rparr>)"

text \<open>
  Modelled from the spec: \<^verbatim>\<open>build_model\<close> is not in the sources. Following the
  builder's steps 4 to 6, it merges the contributions of the registry's entries into
  the workspace, or fails, and freezes the model: from then on \<open>writable\<close> refuses every
  write, a second build included. It registers nothing.
\<close>

definition build_model ::
  "('p, 'r, 'x, 'w) base_model \<Rightarrow> ('p, 'r, 'x, 'w) model \<Rightarrow> error + ('p, 'r, 'x, 'w) model" where
  "build_model b m =
     and_then (writable m) (\<lambda>m'.
       and_then (compose b (options m') (param m') (reactions m') (submodels m')) (\<lambda>w.
         Inr (m'\<lparr>workspace := Some w, built := True\<rparr>)))"

text \<open>The calls of \<^verbatim>\<open>DFN.__init__\<close> after \<^verbatim>\<open>super().__init__\<close>, in the order written.\<close>

definition DFN_setters ::
  "('p, 'r, 'x, 'w) base_model \<Rightarrow>
   (('p, 'r, 'x, 'w) model \<Rightarrow> error + ('p, 'r, 'x, 'w) model) list" where
  "DFN_setters b =
     [set_external_circuit_submodel b,
      set_reactions b,
      set_porosity_submodel,
      set_tortuosity_submodels b,
      set_convection_submodel,
      set_interfacial_submodel,
      set_particle_submodel,
      set_solid_submodel,
      set_electrolyte_submodel,
      set_thermal_submodel b,
      set_current_collector_submodel b]"

fun run_steps :: "('s \<Rightarrow> error + 's) list \<Rightarrow> 's \<Rightarrow> error + 's" where
  "run_steps [] m = Inr m"
| "run_steps (f # fs) m = and_then (f m) (run_steps fs)"

text \<open>
  The model after \<^verbatim>\<open>super().__init__\<close> and the first \<open>n\<close> setter calls of
  \<^verbatim>\<open>DFN.__init__\<close>.
\<close>

definition construction_prefix ::
  "nat \<Rightarrow> ('p, 'r, 'x, 'w) base_model \<Rightarrow> (string \<rightharpoonup> pyval) option \<Rightarrow> string \<Rightarrow>
   error + ('p, 'r, 'x, 'w) model" where
  "construction_prefix n b opts nm =
     and_then (base_init b opts nm) (run_steps (take n (DFN_setters b)))"

text \<open>\<^verbatim>\<open>DFN.__init__(options, name, build)\<close>.\<close>

definition DFN_init ::
  "('p, 'r, 'x, 'w) base_model \<Rightarrow> (string \<rightharpoonup> pyval) option \<Rightarrow> string \<Rightarrow> bool \<Rightarrow>
   error + ('p, 'r, 'x, 'w) model" where
  "DFN_init b opts nm build =
     and_then (base_init b opts nm) (\<lambda>m0.
     and_then (run_steps (DFN_setters b) m0) (\<lambda>m1.
     and_then (if build then build_model b m1 else Inr m1) (\<lambda>m2.
       Inr (m2\<lparr>citations := citations m2 @ [''doyle1993modeling'']\<rparr>))))"

section \<open>The electrolyte property functions\<close>

text \<open>
  The two functions pass the concentration, the temperature and a fixed array of
  coefficients to a correlation of the module \<^verbatim>\<open>..._Landesfeind2019_base\<close>, which is
  not in the sources and is the parameter \<open>base\<close> here. The coefficients are the decimal
  literals of the source.
\<close>

definition electrolyte_conductivity_Landesfeind2019_EC_DMC_1_1 ::
  "('a \<Rightarrow> 'a \<Rightarrow> real list \<Rightarrow> 'b) \<Rightarrow> 'a \<Rightarrow> 'a \<Rightarrow> 'c \<Rightarrow> 'd \<Rightarrow> 'e \<Rightarrow> 'b" where
  "electrolyte_conductivity_Landesfeind2019_EC_DMC_1_1 base c_e T T_inf E_k_e R_g =
     (let coeffs = [0.798, 228, - 1.22, 0.509, - 0.004, 0.00379]
      in base c_e T coeffs)"

definition electrolyte_diffusivity_Landesfeind2019_EC_DMC_1_1 ::
  "('a \<Rightarrow> 'a \<Rightarrow> real list \<Rightarrow> 'b) \<Rightarrow> 'a \<Rightarrow> 'a \<Rightarrow> 'c \<Rightarrow> 'd \<Rightarrow> 'e \<Rightarrow> 'b" where
  "electrolyte_diffusivity_Landesfeind2019_EC_DMC_1_1 base c_e T T_inf E_k_e R_g =
     (let coeffs = [1470, 1.33, - 1690, - 563]
      in base c_e T coeffs)"

section \<open>Notions used in the statements\<close>

text \<open>A model with further entries assigned to its registry, one after the other.\<close>

definition registered ::
  "('p, 'r, 'x) registry \<Rightarrow> ('p, 'r, 'x, 'w) model \<Rightarrow> ('p, 'r, 'x, 'w) model" where
  "registered es m = m\<lparr>submodels := dict_set_all es (submodels m)\<rparr>"

definition base_entries :: "(string \<times> 'x) list \<Rightarrow> ('p, 'r, 'x) registry" where
  "base_entries es = map (\<lambda>e. (fst e, Base_submodel (snd e))) es"

text \<open>
  The assignments that \<^verbatim>\<open>set_particle_submodel\<close>, \<^verbatim>\<open>set_solid_submodel\<close> and
  \<^verbatim>\<open>set_electrolyte_submodel\<close> make, by the value of the option they read. The lemmas
  \<open>set_particle_submodel_registered\<close>, \<open>set_solid_submodel_registered\<close> and
  \<open>set_electrolyte_submodel_registered\<close> below show that the setters do exactly this.
\<close>

definition particle_entries :: "pyval \<Rightarrow> 'p \<Rightarrow> ('p, 'r, 'x) registry" where
  "particle_entries v p =
     (if py_eq_str v ''Fickian diffusion'' then
        [(''negative particle'', FickianManyParticles p ''Negative''),
         (''positive particle'', FickianManyParticles p ''Positive'')]
      else if py_eq_str v ''fast diffusion'' then
        [(''negative particle'', FastManyParticles p ''Negative''),
         (''positive particle'', FastManyParticles p ''Positive'')]
      else [])"

definition solid_entries :: "pyval \<Rightarrow> 'p \<Rightarrow> 'r \<Rightarrow> ('p, 'r, 'x) registry" where
  "solid_entries v p r =
     (if py_is_False v then
        [(''negative electrode'', Ohm_Full p ''Negative'' r),
         (''positive electrode'', Ohm_Full p ''Positive'' r)]
      else
        [(''negative electrode'', Ohm_SurfaceForm p ''Negative''),
         (''positive electrode'', Ohm_SurfaceForm p ''Positive'')])"

definition electrolyte_entries :: "pyval \<Rightarrow> 'p \<Rightarrow> 'r \<Rightarrow> ('p, 'r, 'x) registry" where
  "electrolyte_entries v p r =
     (''electrolyte diffusion'', Diffusion_Full p r) #
     (if py_is_False v then [(''electrolyte conductivity'', Conductivity_Full p r)]
      else if py_eq_str v ''differential'' then
        [(''negative electrolyte conductivity'', FullDifferential p ''Negative'' r),
         (''separator electrolyte conductivity'', FullDifferential p ''Separator'' r),
         (''positive electrolyte conductivity'', FullDifferential p ''Positive'' r)]
      else if py_eq_str v ''algebraic'' then
        [(''negative electrolyte conductivity'', FullAlgebraic p ''Negative'' r),
         (''separator electrolyte conductivity'', FullAlgebraic p ''Separator'' r),
         (''positive electrolyte conductivity'', FullAlgebraic p ''Positive'' r)]
      else [])"

text \<open>All the entries assigned during construction, in the order of assignment.\<close>

definition assigned_entries ::
  "(string \<times> 'x) list \<Rightarrow> (string \<times> 'x) list \<Rightarrow> (string \<times> 'x) list \<Rightarrow> (string \<times> 'x) list \<Rightarrow>
   pyval \<Rightarrow> pyval \<Rightarrow> 'p \<Rightarrow> 'r \<Rightarrow> ('p, 'r, 'x) registry" where
  "assigned_entries ext tort th cc vp vs p r =
     base_entries ext @
     [(''porosity'', Porosity_Constant p)] @
     base_entries tort @
     [(''convection'', NoConvection p)] @
     [(''negative interface'', ButlerVolmer p ''Negative'' ''lithium-ion main''),
      (''positive interface'', ButlerVolmer p ''Positive'' ''lithium-ion main'')] @
     particle_entries vp p @
     solid_entries vs p r @
     electrolyte_entries vs p r @
     base_entries th @
     base_entries cc"

text \<open>The roles an inherited setter registers; none when it raises.\<close>

fun keys_of :: "error + (string \<times> 'x) list \<Rightarrow> string list" where
  "keys_of (Inl e) = []"
| "keys_of (Inr es) = map fst es"

definition inherited_roles ::
  "('p, 'r, 'x, 'w) base_model \<Rightarrow> ('p, 'r, 'x, 'w) model \<Rightarrow> string list" where
  "inherited_roles b m =
     keys_of (external_circuit b (options m) (param m) None) @
     keys_of (tortuosity b (options m) (param m) (reactions m)) @
     keys_of (thermal b (options m) (param m) (reactions m)) @
     keys_of (current_collector b (options m) (param m) (reactions m))"

text \<open>Every role that \<^verbatim>\<open>dfn.py\<close> itself assigns.\<close>

definition DFN_roles :: "string list" where
  "DFN_roles =
     [''porosity'', ''convection'', ''negative interface'', ''positive interface'',
      ''negative particle'', ''positive particle'', ''negative electrode'',
      ''positive electrode'', ''electrolyte diffusion'', ''electrolyte conductivity'',
      ''negative electrolyte conductivity'', ''separator electrolyte conductivity'',
      ''positive electrolyte conductivity'']"

text \<open>
  The assumption made on the inherited setters, whose code is not in the sources: the
  roles they register differ from one another and from the roles of \<^verbatim>\<open>dfn.py\<close>, so
  that no setter overwrites the entry of another.
\<close>

definition roles_separate ::
  "('p, 'r, 'x, 'w) base_model \<Rightarrow> ('p, 'r, 'x, 'w) model \<Rightarrow> bool" where
  "roles_separate b m = distinct (inherited_roles b m @ DFN_roles)"

text \<open>The option \<open>k\<close> is present and equals the string \<open>t\<close>.\<close>

definition option_is :: "(string \<rightharpoonup> pyval) \<Rightarrow> string \<Rightarrow> string \<Rightarrow> bool" where
  "option_is opts k t = (case opts k of None \<Rightarrow> False | Some v \<Rightarrow> py_eq_str v t)"

text \<open>The particle classes, and the electrolyte conductivity classes.\<close>

fun is_particle :: "('p, 'r, 'x) submodel \<Rightarrow> bool" where
  "is_particle (FickianManyParticles p d) = True"
| "is_particle (FastManyParticles p d) = True"
| "is_particle s = False"

fun is_electrolyte_conductivity :: "('p, 'r, 'x) submodel \<Rightarrow> bool" where
  "is_electrolyte_conductivity (Conductivity_Full p r) = True"
| "is_electrolyte_conductivity (FullDifferential p d r) = True"
| "is_electrolyte_conductivity (FullAlgebraic p d r) = True"
| "is_electrolyte_conductivity s = False"

section \<open>An instance for the examples\<close>

text \<open>
  The options of the specification's first scenario.
\<close>

definition example_options :: "string \<rightharpoonup> pyval" where
  "example_options =
     [''particle'' \<mapsto> PStr ''Fickian diffusion'', ''surface form'' \<mapsto> PBool False,
      ''dimensionality'' \<mapsto> PInt 0, ''convection'' \<mapsto> PStr ''none'']"

text \<open>
  Modelled from the spec: the base class is not in the sources. In this instance, used
  for the examples only, every option value is accepted, each inherited setter registers
  one entry under the name of its aspect, and composing the model lists the roles that
  contribute.
\<close>

definition example_base :: "(string, string, string, string list) base_model" where
  "example_base =
     \<lparr>options_setter = (\<lambda>opts. Inr (case opts of None \<Rightarrow> example_options | Some given \<Rightarrow> given)),
      param_of = (\<lambda>opts. ''parameters''),
      reactions_of = (\<lambda>opts p. Inr ''reactions''),
      external_circuit = (\<lambda>opts p r. Inr [(''external circuit'', ''external circuit submodel'')]),
      tortuosity = (\<lambda>opts p r. Inr [(''tortuosity'', ''tortuosity submodel'')]),
      thermal = (\<lambda>opts p r. Inr [(''thermal'', ''thermal submodel'')]),
      current_collector =
        (\<lambda>opts p r. Inr [(''current collector'', ''current collector submodel'')]),
      compose = (\<lambda>opts p r reg. Inr (map fst reg))\<rparr>"

text \<open>
  The model that \<^verbatim>\<open>DFN()\<close> yields over this instance: built, with the options of
  the first scenario.
\<close>

definition built_example :: "(string, string, string, string list) model" where
  "built_example =
     \<lparr>name = ''Doyle-Fuller-Newman model'',
      options = example_options,
      param = ''parameters'',
      reactions = Some ''reactions'',
      submodels =
        [(''external circuit'', Base_submodel ''external circuit submodel''),
         (''porosity'', Porosity_Constant ''parameters''),
         (''tortuosity'', Base_submodel ''tortuosity submodel''),
         (''convection'', NoConvection ''parameters''),
         (''negative interface'', ButlerVolmer ''parameters'' ''Negative'' ''lithium-ion main''),
         (''positive interface'', ButlerVolmer ''parameters'' ''Positive'' ''lithium-ion main''),
         (''negative particle'', FickianManyParticles ''parameters'' ''Negative''),
         (''positive particle'', FickianManyParticles ''parameters'' ''Positive''),
         (''negative electrode'', Ohm_Full ''parameters'' ''Negative'' ''reactions''),
         (''positive electrode'', Ohm_Full ''parameters'' ''Positive'' ''reactions''),
         (''electrolyte diffusion'', Diffusion_Full ''parameters'' ''reactions''),
         (''electrolyte conductivity'', Conductivity_Full ''parameters'' ''reactions''),
         (''thermal'', Base_submodel ''thermal submodel''),
         (''current collector'', Base_submodel ''current collector submodel'')],
      workspace =
        Some [''external circuit'', ''porosity'', ''tortuosity'', ''convection'',
              ''negative interface'', ''positive interface'', ''negative particle'',
              ''positive particle'', ''negative electrode'', ''positive electrode'',
              ''electrolyte diffusion'', ''electrolyte conductivity'', ''thermal'',
              ''current collector''],
      built = True,
      citations = [''doyle1993modeling'']\<rparr>"

text \<open>
  The same model for the options of the second scenario, where the surface form is
  \<^verbatim>\<open>"differential"\<close>.
\<close>

definition differential_options :: "string \<rightharpoonup> pyval" where
  "differential_options =
     [''particle'' \<mapsto> PStr ''Fickian diffusion'', ''surface form'' \<mapsto> PStr ''differential'',
      ''dimensionality'' \<mapsto> PInt 0, ''convection'' \<mapsto> PStr ''none'']"

definition differential_example :: "(string, string, string, string list) model" where
  "differential_example =
     \<lparr>name = ''Doyle-Fuller-Newman model'',
      options = differential_options,
      param = ''parameters'',
      reactions = Some ''reactions'',
      submodels =
        [(''external circuit'', Base_submodel ''external circuit submodel''),
         (''porosity'', Porosity_Constant ''parameters''),
         (''tortuosity'', Base_submodel ''tortuosity submodel''),
         (''convection'', NoConvection ''parameters''),
         (''negative interface'', ButlerVolmer ''parameters'' ''Negative'' ''lithium-ion main''),
         (''positive interface'', ButlerVolmer ''parameters'' ''Positive'' ''lithium-ion main''),
         (''negative particle'', FickianManyParticles ''parameters'' ''Negative''),
         (''positive particle'', FickianManyParticles ''parameters'' ''Positive''),
         (''negative electrode'', Ohm_SurfaceForm ''parameters'' ''Negative''),
         (''positive electrode'', Ohm_SurfaceForm ''parameters'' ''Positive''),
         (''electrolyte diffusion'', Diffusion_Full ''parameters'' ''reactions''),
         (''negative electrolyte conductivity'',
          FullDifferential ''parameters'' ''Negative'' ''reactions''),
         (''separator electrolyte conductivity'',
          FullDifferential ''parameters'' ''Separator'' ''reactions''),
         (''positive electrolyte conductivity'',
          FullDifferential ''parameters'' ''Positive'' ''reactions''),
         (''thermal'', Base_submodel ''thermal submodel''),
         (''current collector'', Base_submodel ''current collector submodel'')],
      workspace =
        Some [''external circuit'', ''porosity'', ''tortuosity'', ''convection'',
              ''negative interface'', ''positive interface'', ''negative particle'',
              ''positive particle'', ''negative electrode'', ''positive electrode'',
              ''electrolyte diffusion'', ''negative electrolyte conductivity'',
              ''separator electrolyte conductivity'', ''positive electrolyte conductivity'',
              ''thermal'', ''current collector''],
      built = True,
      citations = [''doyle1993modeling'']\<rparr>"

text \<open>
  A model that reaches the particle dispatch with a value the dispatch does not know.
\<close>

definition unknown_particle_model :: "(string, string, string, string list) model" where
  "unknown_particle_model =
     \<lparr>name = ''Doyle-Fuller-Newman model'',
      options = [''particle'' \<mapsto> PStr ''shrinking core'', ''surface form'' \<mapsto> PBool False,
                 ''dimensionality'' \<mapsto> PInt 0, ''convection'' \<mapsto> PStr ''none''],
      param = ''parameters'',
      reactions = Some ''reactions'',
      submodels =
        [(''external circuit'', Base_submodel ''external circuit submodel''),
         (''porosity'', Porosity_Constant ''parameters''),
         (''tortuosity'', Base_submodel ''tortuosity submodel''),
         (''convection'', NoConvection ''parameters''),
         (''negative interface'', ButlerVolmer ''parameters'' ''Negative'' ''lithium-ion main''),
         (''positive interface'', ButlerVolmer ''parameters'' ''Positive'' ''lithium-ion main'')],
      workspace = None,
      built = False,
      citations = []\<rparr>"

section \<open>The registry as an ordered dictionary\<close>

lemma lower_domains:
  "lower ''Negative'' = ''negative''"
  "lower ''Separator'' = ''separator''"
  "lower ''Positive'' = ''positive''"
  by code_simp+

lemma and_then_Inr: "and_then x f = Inr y \<longleftrightarrow> (\<exists>a. x = Inr a \<and> f a = Inr y)"
  by (cases x) simp_all

lemma dict_set_fresh: "k \<notin> set (map fst d) \<Longrightarrow> dict_set k v d = d @ [(k, v)]"
  by (induction d) auto

lemma dict_set_same: "map_of d k = Some v \<Longrightarrow> dict_set k v d = d"
  by (induction d) (auto split: if_splits)

lemma dict_set_all_append: "dict_set_all (es @ fs) d = dict_set_all fs (dict_set_all es d)"
  by (induction es arbitrary: d) simp_all

lemma dict_set_all_fresh: "distinct (map fst d @ map fst es) \<Longrightarrow> dict_set_all es d = d @ es"
proof (induction es arbitrary: d)
  case Nil
  then show ?case by simp
next
  case (Cons e es)
  have "dict_set (fst e) (snd e) d = d @ [e]"
    using Cons.prems by (simp add: dict_set_fresh)
  moreover have "distinct (map fst (d @ [e]) @ map fst es)"
    using Cons.prems by auto
  ultimately show ?case
    using Cons.IH [of "d @ [e]"] by simp
qed

lemma dict_set_all_same:
  "\<forall>e \<in> set es. map_of d (fst e) = Some (snd e) \<Longrightarrow> dict_set_all es d = d"
  by (induction es arbitrary: d) (simp_all add: dict_set_same)

lemma keys_dict_set: "fst ` set (dict_set k v d) = insert k (fst ` set d)"
  by (induction d) auto

lemma keys_dict_set_all: "fst ` set (dict_set_all es d) = fst ` set d \<union> fst ` set es"
proof (induction es arbitrary: d)
  case Nil
  then show ?case by simp
next
  case (Cons e es)
  show ?case
    by (simp add: Cons.IH keys_dict_set)
qed

section \<open>What each setter registers\<close>

lemma registered_fields [simp]:
  "name (registered es m) = name m"
  "options (registered es m) = options m"
  "param (registered es m) = param m"
  "reactions (registered es m) = reactions m"
  "workspace (registered es m) = workspace m"
  "built (registered es m) = built m"
  "citations (registered es m) = citations m"
  "submodels (registered es m) = dict_set_all es (submodels m)"
  by (simp_all add: registered_def)

lemma registered_registered: "registered fs (registered es m) = registered (es @ fs) m"
  by (simp add: registered_def dict_set_all_append)


lemma register_registered: "\<not> built m \<Longrightarrow> register k s m = Inr (registered [(k, s)] m)"
  by (simp add: register_def writable_def registered_def)


lemma registered_reactions:
  "registered es (m\<lparr>reactions := r\<rparr>) = (registered es m)\<lparr>reactions := r\<rparr>"
  by (simp add: registered_def)

lemma register_base_registered:
  "\<not> built m \<Longrightarrow> register_base es m = Inr (registered (base_entries es) m)"
proof (induction es arbitrary: m)
  case Nil
  then show ?case by (simp add: base_entries_def registered_def)
next
  case (Cons e es)
  have "\<not> built (registered [(fst e, Base_submodel (snd e))] m)"
    using Cons.prems by simp
  from Cons.IH [OF this] Cons.prems show ?case
    by (simp add: register_registered registered_registered base_entries_def)
qed


lemma set_porosity_submodel_registered:
  "\<not> built m \<Longrightarrow>
   set_porosity_submodel m = Inr (registered [(''porosity'', Porosity_Constant (param m))] m)"
  by (simp add: set_porosity_submodel_def register_registered)

lemma set_convection_submodel_registered:
  "\<not> built m \<Longrightarrow>
   set_convection_submodel m = Inr (registered [(''convection'', NoConvection (param m))] m)"
  by (simp add: set_convection_submodel_def register_registered)

lemma set_interfacial_submodel_registered:
  "\<not> built m \<Longrightarrow>
   set_interfacial_submodel m =
     Inr (registered
           [(''negative interface'', ButlerVolmer (param m) ''Negative'' ''lithium-ion main''),
            (''positive interface'', ButlerVolmer (param m) ''Positive'' ''lithium-ion main'')] m)"
  by (simp add: set_interfacial_submodel_def register_registered registered_registered)

lemma set_particle_submodel_registered:
  "\<not> built m \<Longrightarrow> options m ''particle'' = Some v \<Longrightarrow>
   set_particle_submodel m = Inr (registered (particle_entries v (param m)) m)"
  by (simp add: set_particle_submodel_def get_option_def particle_entries_def
      register_registered registered_registered registered_def)

lemma set_solid_submodel_registered:
  "\<not> built m \<Longrightarrow> options m ''surface form'' = Some v \<Longrightarrow> reactions m = Some r \<Longrightarrow>
   set_solid_submodel m = Inr (registered (solid_entries v (param m) r) m)"
  by (simp add: set_solid_submodel_def get_option_def get_reactions_def solid_entries_def
      register_registered registered_registered)

lemma set_electrolyte_submodel_registered:
  "\<not> built m \<Longrightarrow> options m ''surface form'' = Some v \<Longrightarrow> reactions m = Some r \<Longrightarrow>
   set_electrolyte_submodel m = Inr (registered (electrolyte_entries v (param m) r) m)"
  by (simp add: set_electrolyte_submodel_def get_option_def get_reactions_def
      electrolyte_entries_def register_registered registered_registered lower_domains)

lemma inherited_setter_Inr:
  "\<not> built m \<Longrightarrow>
   inherited_setter f m = Inr m' \<longleftrightarrow>
   (\<exists>es. f (options m) (param m) (reactions m) = Inr es \<and> m' = registered (base_entries es) m)"
  by (auto simp: inherited_setter_def and_then_Inr register_base_registered)

lemma set_reactions_Inr:
  "\<not> built m \<Longrightarrow>
   set_reactions b m = Inr m' \<longleftrightarrow>
   (\<exists>r. reactions_of b (options m) (param m) = Inr r \<and> m' = m\<lparr>reactions := Some r\<rparr>)"
  by (auto simp: set_reactions_def and_then_Inr writable_def)

lemma set_particle_submodel_iff:
  "\<not> built m \<Longrightarrow>
   set_particle_submodel m = Inr m' \<longleftrightarrow>
   (\<exists>v. options m ''particle'' = Some v \<and> m' = registered (particle_entries v (param m)) m)"
proof (cases "options m ''particle''")
  case None
  then show ?thesis by (simp add: set_particle_submodel_def get_option_def)
next
  case (Some v)
  assume "\<not> built m"
  with Some show ?thesis by (auto simp: set_particle_submodel_registered)
qed

lemma set_solid_submodel_iff:
  "\<not> built m \<Longrightarrow> reactions m = Some r \<Longrightarrow>
   set_solid_submodel m = Inr m' \<longleftrightarrow>
   (\<exists>v. options m ''surface form'' = Some v \<and> m' = registered (solid_entries v (param m) r) m)"
proof (cases "options m ''surface form''")
  case None
  then show ?thesis by (simp add: set_solid_submodel_def get_option_def)
next
  case (Some v)
  assume "\<not> built m" "reactions m = Some r"
  with Some show ?thesis by (auto simp: set_solid_submodel_registered)
qed

lemma set_electrolyte_submodel_iff:
  "\<not> built m \<Longrightarrow> reactions m = Some r \<Longrightarrow>
   set_electrolyte_submodel m = Inr m' \<longleftrightarrow>
   (\<exists>v. options m ''surface form'' = Some v \<and>
        m' = registered (electrolyte_entries v (param m) r) m)"
proof (cases "options m ''surface form''")
  case None
  assume "\<not> built m" "reactions m = Some r"
  with None show ?thesis
    by (simp add: set_electrolyte_submodel_def get_option_def get_reactions_def
        register_registered)
next
  case (Some v)
  assume "\<not> built m" "reactions m = Some r"
  with Some show ?thesis by (auto simp: set_electrolyte_submodel_registered)
qed

section \<open>The registry after construction\<close>

text \<open>
  When the setters of \<^verbatim>\<open>DFN.__init__\<close> all succeed on a model that is not built,
  every inherited step has succeeded and the options hold the keys \<^verbatim>\<open>"particle"\<close> and
  \<^verbatim>\<open>"surface form"\<close>; the model is then the starting one with the reactions map set and the entries assigned
  in the order of the calls.
\<close>

lemma run_DFN_setters:
  assumes "run_steps (DFN_setters b) m0 = Inr m" and nb: "\<not> built m0"
  shows "\<exists>ext r tort vp vs th cc.
           external_circuit b (options m0) (param m0) (reactions m0) = Inr ext \<and>
           reactions_of b (options m0) (param m0) = Inr r \<and>
           tortuosity b (options m0) (param m0) (Some r) = Inr tort \<and>
           options m0 ''particle'' = Some vp \<and>
           options m0 ''surface form'' = Some vs \<and>
           thermal b (options m0) (param m0) (Some r) = Inr th \<and>
           current_collector b (options m0) (param m0) (Some r) = Inr cc \<and>
           m = (registered
                 (base_entries ext @
                  [(''porosity'', Porosity_Constant (param m0))] @
                  base_entries tort @
                  [(''convection'', NoConvection (param m0))] @
                  [(''negative interface'', ButlerVolmer (param m0) ''Negative'' ''lithium-ion main''),
                   (''positive interface'', ButlerVolmer (param m0) ''Positive'' ''lithium-ion main'')] @
                  particle_entries vp (param m0) @
                  solid_entries vs (param m0) r @
                  electrolyte_entries vs (param m0) r @
                  base_entries th @
                  base_entries cc) m0)\<lparr>reactions := Some r\<rparr>"
proof -
  from assms(1) obtain m1 m2 m3 m4 m5 m6 m7 m8 m9 m10 where steps:
    "set_external_circuit_submodel b m0 = Inr m1"
    "set_reactions b m1 = Inr m2"
    "set_porosity_submodel m2 = Inr m3"
    "set_tortuosity_submodels b m3 = Inr m4"
    "set_convection_submodel m4 = Inr m5"
    "set_interfacial_submodel m5 = Inr m6"
    "set_particle_submodel m6 = Inr m7"
    "set_solid_submodel m7 = Inr m8"
    "set_electrolyte_submodel m8 = Inr m9"
    "set_thermal_submodel b m9 = Inr m10"
    "set_current_collector_submodel b m10 = Inr m"
    unfolding DFN_setters_def by (auto simp: and_then_Inr)
  from steps(1) obtain ext where ext:
    "external_circuit b (options m0) (param m0) (reactions m0) = Inr ext"
    and m1: "m1 = registered (base_entries ext) m0"
    by (auto simp: set_external_circuit_submodel_def inherited_setter_Inr [OF nb])
  have nb1: "\<not> built m1"
    by (simp add: m1 nb)
  from steps(2) obtain r where r: "reactions_of b (options m0) (param m0) = Inr r"
    and m2: "m2 = (registered (base_entries ext) m0)\<lparr>reactions := Some r\<rparr>"
    by (auto simp: set_reactions_Inr m1 nb)
  let ?m = "m0\<lparr>reactions := Some r\<rparr>"
  have nb': "\<not> built ?m"
    by (simp add: nb)
  have m2': "m2 = registered (base_entries ext) ?m"
    by (simp add: m2 registered_reactions)
  have nb2: "\<not> built m2"
    by (simp add: m2' nb)
  from steps(3) have m3:
    "m3 = registered (base_entries ext @ [(''porosity'', Porosity_Constant (param m0))]) ?m"
    by (simp add: set_porosity_submodel_registered m2' registered_registered nb)
  have nb3: "\<not> built m3"
    by (simp add: m3 nb)
  from steps(4) obtain tort where tort:
    "tortuosity b (options m0) (param m0) (Some r) = Inr tort"
    and m4: "m4 = registered (base_entries tort) m3"
    by (auto simp: set_tortuosity_submodels_def inherited_setter_Inr m3 nb)
  have nb4: "\<not> built m4"
    by (simp add: m4 nb3)
  from steps(5) have m5: "m5 = registered [(''convection'', NoConvection (param m0))] m4"
    by (simp add: set_convection_submodel_registered m4 m3 nb)
  have nb5: "\<not> built m5"
    by (simp add: m5 nb4)
  from steps(6) have m6:
    "m6 = registered
            [(''negative interface'', ButlerVolmer (param m0) ''Negative'' ''lithium-ion main''),
             (''positive interface'', ButlerVolmer (param m0) ''Positive'' ''lithium-ion main'')] m5"
    by (simp add: set_interfacial_submodel_registered m5 m4 m3 nb)
  have fields6: "options m6 = options m0" "param m6 = param m0" "reactions m6 = Some r"
    "\<not> built m6"
    by (simp_all add: m6 m5 m4 m3 nb)
  from steps(7) obtain vp where vp: "options m0 ''particle'' = Some vp"
    and m7: "m7 = registered (particle_entries vp (param m0)) m6"
    by (auto simp: set_particle_submodel_iff [OF fields6(4)] fields6)
  have fields7: "options m7 = options m0" "param m7 = param m0" "reactions m7 = Some r"
    "\<not> built m7"
    by (simp_all add: m7 fields6)
  from steps(8) obtain vs where vs: "options m0 ''surface form'' = Some vs"
    and m8: "m8 = registered (solid_entries vs (param m0) r) m7"
    by (auto simp: set_solid_submodel_iff [OF fields7(4) fields7(3)] fields7)
  have fields8: "options m8 = options m0" "param m8 = param m0" "reactions m8 = Some r"
    "\<not> built m8"
    by (simp_all add: m8 fields7)
  from steps(9) have m9: "m9 = registered (electrolyte_entries vs (param m0) r) m8"
    by (auto simp: set_electrolyte_submodel_iff [OF fields8(4) fields8(3)] fields8 vs)
  have fields9: "options m9 = options m0" "param m9 = param m0" "reactions m9 = Some r"
    "\<not> built m9"
    by (simp_all add: m9 fields8)
  from steps(10) obtain th where th: "thermal b (options m0) (param m0) (Some r) = Inr th"
    and m10: "m10 = registered (base_entries th) m9"
    by (auto simp: set_thermal_submodel_def inherited_setter_Inr [OF fields9(4)] fields9)
  have fields10: "options m10 = options m0" "param m10 = param m0" "reactions m10 = Some r"
    "\<not> built m10"
    by (simp_all add: m10 fields9)
  from steps(11) obtain cc where cc:
    "current_collector b (options m0) (param m0) (Some r) = Inr cc"
    and m11: "m = registered (base_entries cc) m10"
    by (auto simp: set_current_collector_submodel_def inherited_setter_Inr [OF fields10(4)]
        fields10)
  have "m = registered
              (base_entries ext @
               [(''porosity'', Porosity_Constant (param m0))] @
               base_entries tort @
               [(''convection'', NoConvection (param m0))] @
               [(''negative interface'', ButlerVolmer (param m0) ''Negative'' ''lithium-ion main''),
                (''positive interface'', ButlerVolmer (param m0) ''Positive'' ''lithium-ion main'')] @
               particle_entries vp (param m0) @
               solid_entries vs (param m0) r @
               electrolyte_entries vs (param m0) r @
               base_entries th @
               base_entries cc) ?m"
    unfolding m11 m10 m9 m8 m7 m6 m5 m4 m3 by (simp only: registered_registered append_assoc)
  then have "m = (registered
              (base_entries ext @
               [(''porosity'', Porosity_Constant (param m0))] @
               base_entries tort @
               [(''convection'', NoConvection (param m0))] @
               [(''negative interface'', ButlerVolmer (param m0) ''Negative'' ''lithium-ion main''),
                (''positive interface'', ButlerVolmer (param m0) ''Positive'' ''lithium-ion main'')] @
               particle_entries vp (param m0) @
               solid_entries vs (param m0) r @
               electrolyte_entries vs (param m0) r @
               base_entries th @
               base_entries cc) m0)\<lparr>reactions := Some r\<rparr>"
    by (simp only: registered_reactions)
  with ext r tort vp vs th cc show ?thesis by blast
qed

text \<open>
  The same for the whole constructor: building the model and registering the citation
  leave the options, the parameters, the reactions map and the registry as the setters
  made them.
\<close>

lemma DFN_init_Inr:
  assumes "DFN_init b opts nm bld = Inr m"
  shows "\<exists>ext r tort vp vs th cc.
           external_circuit b (options m) (param m) None = Inr ext \<and>
           reactions_of b (options m) (param m) = Inr r \<and>
           reactions m = Some r \<and>
           tortuosity b (options m) (param m) (Some r) = Inr tort \<and>
           options m ''particle'' = Some vp \<and>
           options m ''surface form'' = Some vs \<and>
           thermal b (options m) (param m) (Some r) = Inr th \<and>
           current_collector b (options m) (param m) (Some r) = Inr cc \<and>
           submodels m = dict_set_all (assigned_entries ext tort th cc vp vs (param m) r) [] \<and>
           built m = bld \<and> name m = nm \<and> options_setter b opts = Inr (options m)"
proof -
  from assms obtain m0 m1 m2 where
    m0: "base_init b opts nm = Inr m0" and
    m1: "run_steps (DFN_setters b) m0 = Inr m1" and
    m2: "(if bld then build_model b m1 else Inr m1) = Inr m2" and
    m: "m = m2\<lparr>citations := citations m2 @ [''doyle1993modeling'']\<rparr>"
    by (auto simp: DFN_init_def and_then_Inr)
  from m0 obtain o' where o': "options_setter b opts = Inr o'"
    and m0': "m0 = \<lparr>name = nm, options = o', param = param_of b o', reactions = None,
            submodels = [], workspace = None, built = False, citations = []\<rparr>"
    by (auto simp: base_init_def and_then_Inr)
  have nb0: "\<not> built m0"
    by (simp add: m0')
  from run_DFN_setters [OF m1 nb0] obtain ext r tort vp vs th cc where
    s: "external_circuit b (options m0) (param m0) (reactions m0) = Inr ext"
      "reactions_of b (options m0) (param m0) = Inr r"
      "tortuosity b (options m0) (param m0) (Some r) = Inr tort"
      "options m0 ''particle'' = Some vp"
      "options m0 ''surface form'' = Some vs"
      "thermal b (options m0) (param m0) (Some r) = Inr th"
      "current_collector b (options m0) (param m0) (Some r) = Inr cc"
    and m1': "m1 = (registered (assigned_entries ext tort th cc vp vs (param m0) r) m0)
                     \<lparr>reactions := Some r\<rparr>"
    unfolding assigned_entries_def by blast
  have f1: "options m1 = o'" "param m1 = param m0" "reactions m1 = Some r" "name m1 = nm"
      "built m1 = False"
      "submodels m1 = dict_set_all (assigned_entries ext tort th cc vp vs (param m0) r) []"
    by (simp_all add: m1' m0')
  have f2: "options m2 = o'" "param m2 = param m0" "reactions m2 = Some r" "name m2 = nm"
      "built m2 = bld"
      "submodels m2 = dict_set_all (assigned_entries ext tort th cc vp vs (param m0) r) []"
    using m2 f1 by (auto simp: build_model_def and_then_Inr writable_def split: if_splits)
  have f: "options m = o'" "param m = param m0" "reactions m = Some r" "name m = nm"
      "built m = bld"
      "submodels m = dict_set_all (assigned_entries ext tort th cc vp vs (param m0) r) []"
    using f2 by (simp_all add: m)
  have o0: "options m0 = o'" "reactions m0 = None"
    by (simp_all add: m0')
  from s f o' show ?thesis
    unfolding o0 by (metis (no_types))
qed


text \<open>
  When the roles of the inherited setters are separate from one another and from those
  of \<^verbatim>\<open>dfn.py\<close>, no assignment overwrites an earlier one, and the registry is the
  list of the assigned entries itself.
\<close>

lemma keys_base_entries: "map fst (base_entries es) = map fst es"
  by (simp add: base_entries_def)

lemma keys_assigned_entries:
  "map fst (assigned_entries ext tort th cc vp vs p r) =
     map fst ext @ [''porosity''] @ map fst tort @ [''convection''] @
     [''negative interface'', ''positive interface''] @
     (if py_eq_str vp ''Fickian diffusion'' \<or> py_eq_str vp ''fast diffusion''
      then [''negative particle'', ''positive particle''] else []) @
     [''negative electrode'', ''positive electrode''] @
     (''electrolyte diffusion'' #
      (if py_is_False vs then [''electrolyte conductivity'']
       else if py_eq_str vs ''differential'' \<or> py_eq_str vs ''algebraic''
       then [''negative electrolyte conductivity'', ''separator electrolyte conductivity'',
             ''positive electrolyte conductivity'']
       else [])) @
     map fst th @ map fst cc"
  by (simp add: assigned_entries_def keys_base_entries particle_entries_def solid_entries_def
      electrolyte_entries_def)

lemma distinct_append_subset:
  "distinct (xs @ rs) \<Longrightarrow> distinct rs' \<Longrightarrow> set rs' \<subseteq> set rs \<Longrightarrow> distinct (xs @ rs')"
  by auto

lemma distinct_interleaved:
  "distinct ((as @ bs @ cs @ ds) @ r1 @ r2) \<Longrightarrow> distinct (as @ r1 @ bs @ r2 @ cs @ ds)"
  by auto

lemma distinct_assigned_entries:
  assumes "distinct (map fst ext @ map fst tort @ map fst th @ map fst cc @ DFN_roles)"
  shows "distinct (map fst (assigned_entries ext tort th cc vp vs p r))"
proof -
  let ?r2 = "[''convection''] @
     [''negative interface'', ''positive interface''] @
     (if py_eq_str vp ''Fickian diffusion'' \<or> py_eq_str vp ''fast diffusion''
      then [''negative particle'', ''positive particle''] else []) @
     [''negative electrode'', ''positive electrode''] @
     (''electrolyte diffusion'' #
      (if py_is_False vs then [''electrolyte conductivity'']
       else if py_eq_str vs ''differential'' \<or> py_eq_str vs ''algebraic''
       then [''negative electrolyte conductivity'', ''separator electrolyte conductivity'',
             ''positive electrolyte conductivity'']
       else []))"
  have r: "distinct ([''porosity''] @ ?r2)" "set ([''porosity''] @ ?r2) \<subseteq> set DFN_roles"
    by (auto simp: DFN_roles_def)
  from assms have
    "distinct ((map fst ext @ map fst tort @ map fst th @ map fst cc) @ DFN_roles)"
    by simp
  from distinct_append_subset [OF this r]
  have "distinct (map fst ext @ [''porosity''] @ map fst tort @ ?r2 @ map fst th @ map fst cc)"
    by (rule distinct_interleaved)
  then show ?thesis
    unfolding keys_assigned_entries by (simp only: append_assoc)
qed

lemma DFN_init_registry:
  assumes "DFN_init b opts nm bld = Inr m" and "roles_separate b m"
  shows "\<exists>ext r tort vp vs th cc.
           external_circuit b (options m) (param m) None = Inr ext \<and>
           reactions_of b (options m) (param m) = Inr r \<and>
           reactions m = Some r \<and>
           tortuosity b (options m) (param m) (reactions m) = Inr tort \<and>
           options m ''particle'' = Some vp \<and>
           options m ''surface form'' = Some vs \<and>
           thermal b (options m) (param m) (reactions m) = Inr th \<and>
           current_collector b (options m) (param m) (reactions m) = Inr cc \<and>
           submodels m = assigned_entries ext tort th cc vp vs (param m) r \<and>
           distinct (map fst (submodels m)) \<and>
           distinct (map fst ext @ map fst tort @ map fst th @ map fst cc @ DFN_roles)"
proof -
  from DFN_init_Inr [OF assms(1)] obtain ext r tort vp vs th cc where
    f: "external_circuit b (options m) (param m) None = Inr ext"
      "reactions_of b (options m) (param m) = Inr r"
      "reactions m = Some r"
      "tortuosity b (options m) (param m) (Some r) = Inr tort"
      "options m ''particle'' = Some vp"
      "options m ''surface form'' = Some vs"
      "thermal b (options m) (param m) (Some r) = Inr th"
      "current_collector b (options m) (param m) (Some r) = Inr cc"
    and s: "submodels m = dict_set_all (assigned_entries ext tort th cc vp vs (param m) r) []"
    by blast
  have d: "distinct (map fst ext @ map fst tort @ map fst th @ map fst cc @ DFN_roles)"
    using assms(2) by (simp add: roles_separate_def inherited_roles_def f)
  have d': "distinct (map fst (assigned_entries ext tort th cc vp vs (param m) r))"
    by (rule distinct_assigned_entries [OF d])
  have s': "submodels m = assigned_entries ext tort th cc vp vs (param m) r"
    using dict_set_all_fresh [of "[]" "assigned_entries ext tort th cc vp vs (param m) r"] d'
    by (simp add: s)
  from f s' d d' show ?thesis
    by (simp add: s')
qed

lemma filter_base_entries:
  "filter (\<lambda>e. is_electrolyte_conductivity (snd e)) (base_entries es) = []"
  "filter (\<lambda>e. is_particle (snd e)) (base_entries es) = []"
  by (induction es) (simp_all add: base_entries_def)

lemma inherited_keys_not_DFN_roles:
  assumes "distinct (map fst ext @ map fst tort @ map fst th @ map fst cc @ DFN_roles)"
    and "k \<in> set DFN_roles"
  shows "k \<notin> fst ` set ext \<and> k \<notin> fst ` set tort \<and> k \<notin> fst ` set th \<and> k \<notin> fst ` set cc"
  using assms by auto

section \<open>Steps of the construction\<close>

text \<open>
  A property that every step keeps, once it holds, still holds after any run of steps.
  Every setter of the constructor keeps a model under construction that way, and keeps
  the reactions map once it is set.
\<close>

lemma run_steps_Cons_Inr:
  "run_steps (f # fs) m = Inr m' \<Longrightarrow> \<exists>m1. f m = Inr m1 \<and> run_steps fs m1 = Inr m'"
  by (simp add: and_then_Inr)

lemma run_steps_invariant:
  "\<forall>f \<in> set fs. \<forall>m m'. P m \<longrightarrow> f m = Inr m' \<longrightarrow> P m' \<Longrightarrow> P m \<Longrightarrow>
   run_steps fs m = Inr m' \<Longrightarrow> P m'"
proof (induction fs arbitrary: m)
  case Nil
  from Nil(3) have "m' = m" by simp
  with Nil(2) show ?case by simp
next
  case (Cons f fs)
  from run_steps_Cons_Inr [OF Cons.prems(3)] obtain m1
    where m1: "f m = Inr m1" "run_steps fs m1 = Inr m'"
    by blast
  have "f \<in> set (f # fs)" by simp
  from Cons.prems(1) [rule_format, OF this Cons.prems(2) m1(1)] have p1: "P m1" .
  have rest: "\<forall>g \<in> set fs. \<forall>m m'. P m \<longrightarrow> g m = Inr m' \<longrightarrow> P m'"
  proof
    fix g assume "g \<in> set fs"
    then have "g \<in> set (f # fs)" by simp
    from Cons.prems(1) [rule_format, OF this]
    show "\<forall>m m'. P m \<longrightarrow> g m = Inr m' \<longrightarrow> P m'" by blast
  qed
  show ?case
    by (rule Cons.IH [OF rest p1 m1(2)])
qed

lemma keys_base_entries_image: "fst ` set (base_entries es) = fst ` set es"
  by (simp add: base_entries_def image_image)

lemma setters_keep_reactions:
  assumes "f \<in> set (DFN_setters b)" and "\<not> built m \<and> reactions m \<noteq> None"
    and "f m = Inr m'"
  shows "\<not> built m' \<and> reactions m' \<noteq> None"
proof -
  from assms(2) obtain r where nb: "\<not> built m" and r: "reactions m = Some r"
    by auto
  from assms(1) consider
    "f = set_external_circuit_submodel b" | "f = set_reactions b" | "f = set_porosity_submodel"
    | "f = set_tortuosity_submodels b" | "f = set_convection_submodel"
    | "f = set_interfacial_submodel" | "f = set_particle_submodel" | "f = set_solid_submodel"
    | "f = set_electrolyte_submodel" | "f = set_thermal_submodel b"
    | "f = set_current_collector_submodel b"
    unfolding DFN_setters_def by auto
  then show ?thesis
  proof cases
    case 1
    with assms(3) nb r show ?thesis
      by (auto simp: set_external_circuit_submodel_def inherited_setter_Inr [OF nb])
  next
    case 2
    with assms(3) nb show ?thesis by (auto simp: set_reactions_Inr [OF nb])
  next
    case 3
    with assms(3) nb r show ?thesis by (auto simp: set_porosity_submodel_registered [OF nb])
  next
    case 4
    with assms(3) nb r show ?thesis
      by (auto simp: set_tortuosity_submodels_def inherited_setter_Inr [OF nb])
  next
    case 5
    with assms(3) nb r show ?thesis by (auto simp: set_convection_submodel_registered [OF nb])
  next
    case 6
    with assms(3) nb r show ?thesis by (auto simp: set_interfacial_submodel_registered [OF nb])
  next
    case 7
    with assms(3) nb r show ?thesis by (auto simp: set_particle_submodel_iff [OF nb])
  next
    case 8
    with assms(3) nb r show ?thesis by (auto simp: set_solid_submodel_iff [OF nb r])
  next
    case 9
    with assms(3) nb r show ?thesis by (auto simp: set_electrolyte_submodel_iff [OF nb r])
  next
    case 10
    with assms(3) nb r show ?thesis
      by (auto simp: set_thermal_submodel_def inherited_setter_Inr [OF nb])
  next
    case 11
    with assms(3) nb r show ?thesis
      by (auto simp: set_current_collector_submodel_def inherited_setter_Inr [OF nb])
  qed
qed

section \<open>The model once it is built\<close>





section \<open>Claims on the registry\<close>

text \<open>
  C1. Whenever the constructor accepts the options, the roles of the registry stand in
  the order of the calls of \<^verbatim>\<open>DFN.__init__\<close>: external circuit, porosity, tortuosity,
  convection, the two interfaces, the particles, the two electrodes, the electrolyte
  (diffusion, then conductivity), thermal, current collector. The entries of the
  particle and of the conductivity group are those of the option's branch, and none when
  no branch is taken. The inherited setters are not in the sources: their roles are
  assumed separate (\<open>roles_separate\<close>).
\<close>

theorem registry_in_canonical_order:
  assumes "DFN_init b opts nm bld = Inr m" and "roles_separate b m"
  shows "map fst (submodels m) =
           keys_of (external_circuit b (options m) (param m) None) @
           [''porosity''] @
           keys_of (tortuosity b (options m) (param m) (reactions m)) @
           [''convection''] @
           [''negative interface'', ''positive interface''] @
           (if option_is (options m) ''particle'' ''Fickian diffusion'' \<or>
               option_is (options m) ''particle'' ''fast diffusion''
            then [''negative particle'', ''positive particle''] else []) @
           [''negative electrode'', ''positive electrode''] @
           (''electrolyte diffusion'' #
            (if options m ''surface form'' = Some (PBool False) then [''electrolyte conductivity'']
             else if option_is (options m) ''surface form'' ''differential'' \<or>
                     option_is (options m) ''surface form'' ''algebraic''
             then [''negative electrolyte conductivity'', ''separator electrolyte conductivity'',
                   ''positive electrolyte conductivity'']
             else [])) @
           keys_of (thermal b (options m) (param m) (reactions m)) @
           keys_of (current_collector b (options m) (param m) (reactions m))"
proof -
  from DFN_init_registry [OF assms] obtain ext r tort vp vs th cc where
    f: "external_circuit b (options m) (param m) None = Inr ext"
      "tortuosity b (options m) (param m) (reactions m) = Inr tort"
      "options m ''particle'' = Some vp"
      "options m ''surface form'' = Some vs"
      "thermal b (options m) (param m) (reactions m) = Inr th"
      "current_collector b (options m) (param m) (reactions m) = Inr cc"
    and s: "submodels m = assigned_entries ext tort th cc vp vs (param m) r"
    by blast
  show ?thesis
    unfolding s keys_assigned_entries
    by (simp add: f option_is_def py_is_False_def)
qed

theorem registry_in_canonical_order_witness:
  "DFN_init example_base None ''Doyle-Fuller-Newman model'' True = Inr built_example \<and>
   roles_separate example_base built_example \<and>
   map fst (submodels built_example) =
     [''external circuit'', ''porosity'', ''tortuosity'', ''convection'',
      ''negative interface'', ''positive interface'', ''negative particle'',
      ''positive particle'', ''negative electrode'', ''positive electrode'',
      ''electrolyte diffusion'', ''electrolyte conductivity'', ''thermal'',
      ''current collector'']"
proof -
  have i: "DFN_init example_base None ''Doyle-Fuller-Newman model'' True = Inr built_example"
    by (simp add: DFN_init_def base_init_def example_base_def example_options_def
        built_example_def DFN_setters_def
        set_external_circuit_submodel_def set_tortuosity_submodels_def set_thermal_submodel_def
        set_current_collector_submodel_def inherited_setter_def writable_def
        set_reactions_def set_porosity_submodel_def set_convection_submodel_def
        set_interfacial_submodel_def set_particle_submodel_def set_solid_submodel_def
        set_electrolyte_submodel_def get_option_def get_reactions_def register_def
        build_model_def py_is_False_def)
  have s: "roles_separate example_base built_example"
    by (simp add: roles_separate_def inherited_roles_def example_base_def DFN_roles_def)
  have k: "map fst (submodels built_example) =
     [''external circuit'', ''porosity'', ''tortuosity'', ''convection'',
      ''negative interface'', ''positive interface'', ''negative particle'',
      ''positive particle'', ''negative electrode'', ''positive electrode'',
      ''electrolyte diffusion'', ''electrolyte conductivity'', ''thermal'',
      ''current collector'']"
    using registry_in_canonical_order [OF i s]
    by (simp add: example_base_def built_example_def example_options_def option_is_def)
  from i s k show ?thesis by blast
qed

text \<open>
  C2. When the surface form option of the constructed model is \<^verbatim>\<open>"differential"\<close>, the
  registry holds exactly three entries of an electrolyte conductivity class: the
  negative, the separator and the positive one, in this order, each a
  \<^verbatim>\<open>FullDifferential\<close> for its domain with the model's parameters and reactions map;
  and it has no entry \<^verbatim>\<open>"electrolyte conductivity"\<close>.
\<close>

theorem differential_surface_form:
  assumes "DFN_init b opts nm bld = Inr m" and "roles_separate b m"
    and "options m ''surface form'' = Some (PStr ''differential'')"
  shows "\<exists>r. reactions m = Some r \<and>
           filter (\<lambda>e. is_electrolyte_conductivity (snd e)) (submodels m) =
             [(''negative electrolyte conductivity'', FullDifferential (param m) ''Negative'' r),
              (''separator electrolyte conductivity'', FullDifferential (param m) ''Separator'' r),
              (''positive electrolyte conductivity'', FullDifferential (param m) ''Positive'' r)] \<and>
           ''electrolyte conductivity'' \<notin> set (map fst (submodels m))"
proof -
  from DFN_init_registry [OF assms(1,2)] obtain ext r tort vp vs th cc where
    r: "reactions m = Some r"
    and vs: "options m ''surface form'' = Some vs"
    and s: "submodels m = assigned_entries ext tort th cc vp vs (param m) r"
    and d: "distinct (map fst ext @ map fst tort @ map fst th @ map fst cc @ DFN_roles)"
    by blast
  from vs assms(3) have vs': "vs = PStr ''differential''"
    by simp
  have f: "filter (\<lambda>e. is_electrolyte_conductivity (snd e)) (submodels m) =
             [(''negative electrolyte conductivity'', FullDifferential (param m) ''Negative'' r),
              (''separator electrolyte conductivity'', FullDifferential (param m) ''Separator'' r),
              (''positive electrolyte conductivity'', FullDifferential (param m) ''Positive'' r)]"
    by (simp add: s vs' assigned_entries_def filter_base_entries particle_entries_def
        solid_entries_def electrolyte_entries_def py_is_False_def)
  have "''electrolyte conductivity'' \<in> set DFN_roles"
    by (simp add: DFN_roles_def)
  from inherited_keys_not_DFN_roles [OF d this]
  have k: "''electrolyte conductivity'' \<notin> set (map fst (submodels m))"
    unfolding s keys_assigned_entries by (simp add: vs' py_is_False_def)
  from r f k show ?thesis
    by blast
qed

theorem differential_surface_form_witness:
  "DFN_init example_base (Some differential_options) ''Doyle-Fuller-Newman model'' False
     = Inr (differential_example\<lparr>workspace := None, built := False\<rparr>) \<and>
   roles_separate example_base (differential_example\<lparr>workspace := None, built := False\<rparr>) \<and>
   options (differential_example\<lparr>workspace := None, built := False\<rparr>) ''surface form''
     = Some (PStr ''differential'') \<and>
   filter (\<lambda>e. is_electrolyte_conductivity (snd e))
     (submodels (differential_example\<lparr>workspace := None, built := False\<rparr>)) =
     [(''negative electrolyte conductivity'',
       FullDifferential ''parameters'' ''Negative'' ''reactions''),
      (''separator electrolyte conductivity'',
       FullDifferential ''parameters'' ''Separator'' ''reactions''),
      (''positive electrolyte conductivity'',
       FullDifferential ''parameters'' ''Positive'' ''reactions'')] \<and>
   ''electrolyte conductivity''
     \<notin> set (map fst (submodels (differential_example\<lparr>workspace := None, built := False\<rparr>)))"
proof -
  let ?m = "differential_example\<lparr>workspace := None, built := False\<rparr>"
  have i: "DFN_init example_base (Some differential_options) ''Doyle-Fuller-Newman model'' False
             = Inr ?m"
    by (simp add: DFN_init_def base_init_def example_base_def differential_options_def
        differential_example_def DFN_setters_def
        set_external_circuit_submodel_def set_tortuosity_submodels_def set_thermal_submodel_def
        set_current_collector_submodel_def inherited_setter_def writable_def
        set_reactions_def set_porosity_submodel_def set_convection_submodel_def
        set_interfacial_submodel_def set_particle_submodel_def set_solid_submodel_def
        set_electrolyte_submodel_def get_option_def get_reactions_def register_def
        py_is_False_def lower_domains)
  have s: "roles_separate example_base ?m"
    by (simp add: roles_separate_def inherited_roles_def example_base_def DFN_roles_def)
  have o: "options ?m ''surface form'' = Some (PStr ''differential'')"
    by (simp add: differential_example_def differential_options_def)
  have p: "param ?m = ''parameters''" "reactions ?m = Some ''reactions''"
    by (simp_all add: differential_example_def)
  from differential_surface_form [OF i s o] i s o show ?thesis
    by (simp add: p)
qed

text \<open>
  C3. When the particle option is \<^verbatim>\<open>"Fickian diffusion"\<close> and the surface form is
  \<^verbatim>\<open>False\<close> (the dimensionality and the convection option are read by no setter of
  \<^verbatim>\<open>dfn.py\<close>), the registry holds exactly two entries of a particle class, the
  negative and the positive \<^verbatim>\<open>FickianManyParticles\<close>, exactly one entry of an
  electrolyte conductivity class, \<^verbatim>\<open>"electrolyte conductivity"\<close> with the
  \<^verbatim>\<open>Full\<close> conductivity, and none of the three entries split by domain.
\<close>

theorem first_scenario:
  assumes "DFN_init b opts nm bld = Inr m" and "roles_separate b m"
    and "options m ''particle'' = Some (PStr ''Fickian diffusion'')"
    and "options m ''surface form'' = Some (PBool False)"
  shows "\<exists>r. reactions m = Some r \<and>
           filter (\<lambda>e. is_particle (snd e)) (submodels m) =
             [(''negative particle'', FickianManyParticles (param m) ''Negative''),
              (''positive particle'', FickianManyParticles (param m) ''Positive'')] \<and>
           filter (\<lambda>e. is_electrolyte_conductivity (snd e)) (submodels m) =
             [(''electrolyte conductivity'', Conductivity_Full (param m) r)] \<and>
           ''negative electrolyte conductivity'' \<notin> set (map fst (submodels m)) \<and>
           ''separator electrolyte conductivity'' \<notin> set (map fst (submodels m)) \<and>
           ''positive electrolyte conductivity'' \<notin> set (map fst (submodels m))"
proof -
  from DFN_init_registry [OF assms(1,2)] obtain ext r tort vp vs th cc where
    r: "reactions m = Some r"
    and vp: "options m ''particle'' = Some vp"
    and vs: "options m ''surface form'' = Some vs"
    and s: "submodels m = assigned_entries ext tort th cc vp vs (param m) r"
    and d: "distinct (map fst ext @ map fst tort @ map fst th @ map fst cc @ DFN_roles)"
    by blast
  from vp vs assms(3,4) have v: "vp = PStr ''Fickian diffusion''" "vs = PBool False"
    by simp_all
  have fp: "filter (\<lambda>e. is_particle (snd e)) (submodels m) =
             [(''negative particle'', FickianManyParticles (param m) ''Negative''),
              (''positive particle'', FickianManyParticles (param m) ''Positive'')]"
    by (simp add: s v assigned_entries_def filter_base_entries particle_entries_def
        solid_entries_def electrolyte_entries_def py_is_False_def)
  have fc: "filter (\<lambda>e. is_electrolyte_conductivity (snd e)) (submodels m) =
             [(''electrolyte conductivity'', Conductivity_Full (param m) r)]"
    by (simp add: s v assigned_entries_def filter_base_entries particle_entries_def
        solid_entries_def electrolyte_entries_def py_is_False_def)
  have roles: "''negative electrolyte conductivity'' \<in> set DFN_roles"
    "''separator electrolyte conductivity'' \<in> set DFN_roles"
    "''positive electrolyte conductivity'' \<in> set DFN_roles"
    by (simp_all add: DFN_roles_def)
  note n = roles [THEN inherited_keys_not_DFN_roles [OF d]]
  from n have k: "''negative electrolyte conductivity'' \<notin> set (map fst (submodels m))"
    "''separator electrolyte conductivity'' \<notin> set (map fst (submodels m))"
    "''positive electrolyte conductivity'' \<notin> set (map fst (submodels m))"
    unfolding s keys_assigned_entries by (simp_all add: v py_is_False_def)
  from r fp fc k show ?thesis
    by blast
qed

theorem first_scenario_witness:
  "DFN_init example_base (Some example_options) ''Doyle-Fuller-Newman model'' True
     = Inr built_example \<and>
   roles_separate example_base built_example \<and>
   options built_example ''particle'' = Some (PStr ''Fickian diffusion'') \<and>
   options built_example ''surface form'' = Some (PBool False) \<and>
   filter (\<lambda>e. is_particle (snd e)) (submodels built_example) =
     [(''negative particle'', FickianManyParticles ''parameters'' ''Negative''),
      (''positive particle'', FickianManyParticles ''parameters'' ''Positive'')] \<and>
   filter (\<lambda>e. is_electrolyte_conductivity (snd e)) (submodels built_example) =
     [(''electrolyte conductivity'', Conductivity_Full ''parameters'' ''reactions'')] \<and>
   ''negative electrolyte conductivity'' \<notin> set (map fst (submodels built_example)) \<and>
   ''separator electrolyte conductivity'' \<notin> set (map fst (submodels built_example)) \<and>
   ''positive electrolyte conductivity'' \<notin> set (map fst (submodels built_example))"
proof -
  have i: "DFN_init example_base (Some example_options) ''Doyle-Fuller-Newman model'' True
             = Inr built_example"
    by (simp add: DFN_init_def base_init_def example_base_def example_options_def
        built_example_def DFN_setters_def
        set_external_circuit_submodel_def set_tortuosity_submodels_def set_thermal_submodel_def
        set_current_collector_submodel_def inherited_setter_def writable_def
        set_reactions_def set_porosity_submodel_def set_convection_submodel_def
        set_interfacial_submodel_def set_particle_submodel_def set_solid_submodel_def
        set_electrolyte_submodel_def get_option_def get_reactions_def register_def
        build_model_def py_is_False_def)
  have s: "roles_separate example_base built_example"
    by (simp add: roles_separate_def inherited_roles_def example_base_def DFN_roles_def)
  have o: "options built_example ''particle'' = Some (PStr ''Fickian diffusion'')"
    "options built_example ''surface form'' = Some (PBool False)"
    by (simp_all add: built_example_def example_options_def)
  have p: "param built_example = ''parameters''" "reactions built_example = Some ''reactions''"
    by (simp_all add: built_example_def)
  from first_scenario [OF i s o] i s o show ?thesis
    by (simp add: p)
qed

text \<open>
  C9. Whatever the options, the entry \<^verbatim>\<open>"electrolyte diffusion"\<close> of the constructed
  model is the \<^verbatim>\<open>Full\<close> diffusion submodel over the model's parameters and the
  reactions map that \<^verbatim>\<open>set_reactions\<close> computed, and the entries
  \<^verbatim>\<open>"negative interface"\<close> and \<^verbatim>\<open>"positive interface"\<close> are the \<^verbatim>\<open>ButlerVolmer\<close>
  submodels of the negative and the positive domain.
\<close>

theorem fixed_selections:
  assumes "DFN_init b opts nm bld = Inr m" and "roles_separate b m"
  shows "\<exists>r. reactions_of b (options m) (param m) = Inr r \<and> reactions m = Some r \<and>
           map_of (submodels m) ''electrolyte diffusion'' = Some (Diffusion_Full (param m) r) \<and>
           map_of (submodels m) ''negative interface'' =
             Some (ButlerVolmer (param m) ''Negative'' ''lithium-ion main'') \<and>
           map_of (submodels m) ''positive interface'' =
             Some (ButlerVolmer (param m) ''Positive'' ''lithium-ion main'')"
proof -
  from DFN_init_registry [OF assms] obtain ext r tort vp vs th cc where
    r: "reactions_of b (options m) (param m) = Inr r" "reactions m = Some r"
    and s: "submodels m = assigned_entries ext tort th cc vp vs (param m) r"
    and d: "distinct (map fst (submodels m))"
    by blast
  have "(''electrolyte diffusion'', Diffusion_Full (param m) r) \<in> set (submodels m)"
    "(''negative interface'', ButlerVolmer (param m) ''Negative'' ''lithium-ion main'')
       \<in> set (submodels m)"
    "(''positive interface'', ButlerVolmer (param m) ''Positive'' ''lithium-ion main'')
       \<in> set (submodels m)"
    by (simp_all add: s assigned_entries_def electrolyte_entries_def)
  with d r show ?thesis
    by simp
qed

theorem fixed_selections_witness:
  "DFN_init example_base (Some differential_options) ''Doyle-Fuller-Newman model'' True
     = Inr differential_example \<and>
   roles_separate example_base differential_example \<and>
   map_of (submodels differential_example) ''electrolyte diffusion''
     = Some (Diffusion_Full ''parameters'' ''reactions'') \<and>
   map_of (submodels differential_example) ''negative interface''
     = Some (ButlerVolmer ''parameters'' ''Negative'' ''lithium-ion main'') \<and>
   map_of (submodels differential_example) ''positive interface''
     = Some (ButlerVolmer ''parameters'' ''Positive'' ''lithium-ion main'')"
proof -
  have i: "DFN_init example_base (Some differential_options) ''Doyle-Fuller-Newman model'' True
             = Inr differential_example"
    by (simp add: DFN_init_def base_init_def example_base_def differential_options_def
        differential_example_def DFN_setters_def
        set_external_circuit_submodel_def set_tortuosity_submodels_def set_thermal_submodel_def
        set_current_collector_submodel_def inherited_setter_def writable_def
        set_reactions_def set_porosity_submodel_def set_convection_submodel_def
        set_interfacial_submodel_def set_particle_submodel_def set_solid_submodel_def
        set_electrolyte_submodel_def get_option_def get_reactions_def register_def
        build_model_def py_is_False_def lower_domains)
  have s: "roles_separate example_base differential_example"
    by (simp add: roles_separate_def inherited_roles_def example_base_def DFN_roles_def)
  have p: "param differential_example = ''parameters''"
    "reactions differential_example = Some ''reactions''"
    by (simp_all add: differential_example_def)
  from fixed_selections [OF i s] i s show ?thesis
    by (simp add: p)
qed

section \<open>Claims on the build state and on the order of the steps\<close>



text \<open>
  C6, as amended. \<^verbatim>\<open>DFN.__init__\<close> calls \<^verbatim>\<open>set_external_circuit_submodel\<close> first
  and \<^verbatim>\<open>set_reactions\<close> second. After the first step the registry holds the entries
  of the external circuit setter and the reactions map is not computed; after the second
  step the reactions map is the computed one and the registry still holds those entries
  only; from then on the reactions map stays computed, so that every other submodel is
  instantiated after it. As long as the reactions map is not computed the registry holds
  no role but those of the external circuit setter.
\<close>

theorem external_circuit_then_reactions:
  assumes "construction_prefix n b opts nm = Inr m"
  shows "(n = 0 \<longrightarrow> reactions m = None \<and> submodels m = []) \<and>
         (n = 1 \<longrightarrow>
            reactions m = None \<and>
            (\<exists>ext. external_circuit b (options m) (param m) None = Inr ext \<and>
                   submodels m = dict_set_all (base_entries ext) [])) \<and>
         (n = 2 \<longrightarrow>
            (\<exists>ext r. external_circuit b (options m) (param m) None = Inr ext \<and>
                     reactions_of b (options m) (param m) = Inr r \<and>
                     reactions m = Some r \<and>
                     submodels m = dict_set_all (base_entries ext) [])) \<and>
         (2 \<le> n \<longrightarrow> reactions m \<noteq> None) \<and>
         (reactions m = None \<longrightarrow>
            set (map fst (submodels m))
              \<subseteq> set (keys_of (external_circuit b (options m) (param m) None)))"
proof -
  from assms obtain m0 where m0: "base_init b opts nm = Inr m0"
    and run: "run_steps (take n (DFN_setters b)) m0 = Inr m"
    by (auto simp: construction_prefix_def and_then_Inr)
  from m0 have f0: "reactions m0 = None" "submodels m0 = []" and nb: "\<not> built m0"
    by (auto simp: base_init_def and_then_Inr)
  have c0: "n = 0 \<longrightarrow> reactions m = None \<and> submodels m = []"
    using run f0 by auto
  have c1: "n = 1 \<longrightarrow>
            reactions m = None \<and>
            (\<exists>ext. external_circuit b (options m) (param m) None = Inr ext \<and>
                   submodels m = dict_set_all (base_entries ext) [])"
  proof
    assume "n = 1"
    with run have "set_external_circuit_submodel b m0 = Inr m"
      by (auto simp: DFN_setters_def and_then_Inr)
    then obtain ext where
      "external_circuit b (options m0) (param m0) None = Inr ext"
      "m = registered (base_entries ext) m0"
      by (auto simp: set_external_circuit_submodel_def inherited_setter_Inr [OF nb] f0)
    with f0 show "reactions m = None \<and>
            (\<exists>ext. external_circuit b (options m) (param m) None = Inr ext \<and>
                   submodels m = dict_set_all (base_entries ext) [])"
      by simp
  qed
  have c2: "n = 2 \<longrightarrow>
            (\<exists>ext r. external_circuit b (options m) (param m) None = Inr ext \<and>
                     reactions_of b (options m) (param m) = Inr r \<and>
                     reactions m = Some r \<and>
                     submodels m = dict_set_all (base_entries ext) [])"
  proof
    assume "n = 2"
    with run obtain m1 where s1: "set_external_circuit_submodel b m0 = Inr m1"
      and s2: "set_reactions b m1 = Inr m"
      by (auto simp: DFN_setters_def numeral_2_eq_2 and_then_Inr)
    from s1 obtain ext where ext:
      "external_circuit b (options m0) (param m0) None = Inr ext"
      and m1: "m1 = registered (base_entries ext) m0"
      by (auto simp: set_external_circuit_submodel_def inherited_setter_Inr [OF nb] f0)
    have nb1: "\<not> built m1"
      by (simp add: m1 nb)
    from s2 [unfolded set_reactions_Inr [OF nb1]] obtain r where
      r: "reactions_of b (options m1) (param m1) = Inr r" and m: "m = m1\<lparr>reactions := Some r\<rparr>"
      by blast
    from ext r have "external_circuit b (options m) (param m) None = Inr ext"
      "reactions_of b (options m) (param m) = Inr r" "reactions m = Some r"
      "submodels m = dict_set_all (base_entries ext) []"
      by (simp_all add: m m1 f0)
    then show "\<exists>ext r. external_circuit b (options m) (param m) None = Inr ext \<and>
                     reactions_of b (options m) (param m) = Inr r \<and>
                     reactions m = Some r \<and>
                     submodels m = dict_set_all (base_entries ext) []"
      by blast
  qed
  have c3: "2 \<le> n \<longrightarrow> reactions m \<noteq> None"
  proof
    assume "2 \<le> n"
    then obtain k where n: "n = Suc (Suc k)"
      by (metis Suc_le_D numeral_2_eq_2 Suc_le_mono)
    let ?rest = "[set_porosity_submodel, set_tortuosity_submodels b, set_convection_submodel,
      set_interfacial_submodel, set_particle_submodel, set_solid_submodel,
      set_electrolyte_submodel, set_thermal_submodel b, set_current_collector_submodel b]"
    from run obtain m1 m2 where
      s1: "set_external_circuit_submodel b m0 = Inr m1"
      and s2: "set_reactions b m1 = Inr m2"
      and rest: "run_steps (take k ?rest) m2 = Inr m"
      by (auto simp: n DFN_setters_def and_then_Inr)
    from s1 have nb1: "\<not> built m1"
      by (auto simp: set_external_circuit_submodel_def inherited_setter_Inr [OF nb] nb)
    from s2 [unfolded set_reactions_Inr [OF nb1]] nb1
    have r2: "\<not> built m2 \<and> reactions m2 \<noteq> None"
      by auto
    have sub: "set (take k ?rest) \<subseteq> set (DFN_setters b)"
      using set_take_subset [of k ?rest] by (auto simp: DFN_setters_def)
    have "\<forall>f \<in> set (take k ?rest). \<forall>x x'.
            \<not> built x \<and> reactions x \<noteq> None \<longrightarrow> f x = Inr x' \<longrightarrow>
            \<not> built x' \<and> reactions x' \<noteq> None"
    proof (intro ballI allI impI)
      fix f and x x' :: "('a, 'b, 'c, 'd) model"
      assume "f \<in> set (take k ?rest)"
        and x: "\<not> built x \<and> reactions x \<noteq> None" "f x = Inr x'"
      with sub have "f \<in> set (DFN_setters b)"
        by blast
      from setters_keep_reactions [OF this x]
      show "\<not> built x' \<and> reactions x' \<noteq> None" .
    qed
    from run_steps_invariant
      [where P = "\<lambda>m. \<not> built m \<and> reactions m \<noteq> None", OF this r2 rest]
    show "reactions m \<noteq> None"
      by simp
  qed
  have c4: "reactions m = None \<longrightarrow>
            set (map fst (submodels m))
              \<subseteq> set (keys_of (external_circuit b (options m) (param m) None))"
  proof
    assume none: "reactions m = None"
    with c3 have "n = 0 \<or> n = 1"
      by auto
    then show "set (map fst (submodels m))
              \<subseteq> set (keys_of (external_circuit b (options m) (param m) None))"
    proof
      assume "n = 0"
      with c0 show ?thesis by simp
    next
      assume "n = 1"
      with c1 obtain ext where "external_circuit b (options m) (param m) None = Inr ext"
        "submodels m = dict_set_all (base_entries ext) []"
        by blast
      then show ?thesis
        by (simp add: keys_dict_set_all keys_base_entries_image)
    qed
  qed
  from c0 c1 c2 c3 c4 show ?thesis
    by blast
qed

theorem external_circuit_then_reactions_witness:
  "construction_prefix 0 example_base None ''Doyle-Fuller-Newman model'' =
     Inr \<lparr>name = ''Doyle-Fuller-Newman model'', options = example_options,
          param = ''parameters'', reactions = None, submodels = [],
          workspace = None, built = False, citations = []\<rparr> \<and>
   construction_prefix 1 example_base None ''Doyle-Fuller-Newman model'' =
     Inr \<lparr>name = ''Doyle-Fuller-Newman model'', options = example_options,
          param = ''parameters'', reactions = None,
          submodels = [(''external circuit'', Base_submodel ''external circuit submodel'')],
          workspace = None, built = False, citations = []\<rparr> \<and>
   construction_prefix 2 example_base None ''Doyle-Fuller-Newman model'' =
     Inr \<lparr>name = ''Doyle-Fuller-Newman model'', options = example_options,
          param = ''parameters'', reactions = Some ''reactions'',
          submodels = [(''external circuit'', Base_submodel ''external circuit submodel'')],
          workspace = None, built = False, citations = []\<rparr> \<and>
   construction_prefix 3 example_base None ''Doyle-Fuller-Newman model'' =
     Inr \<lparr>name = ''Doyle-Fuller-Newman model'', options = example_options,
          param = ''parameters'', reactions = Some ''reactions'',
          submodels = [(''external circuit'', Base_submodel ''external circuit submodel''),
                       (''porosity'', Porosity_Constant ''parameters'')],
          workspace = None, built = False, citations = []\<rparr> \<and>
   (2::nat) \<le> 3 \<and>
   external_circuit example_base example_options ''parameters'' None =
     Inr [(''external circuit'', ''external circuit submodel'')] \<and>
   reactions_of example_base example_options ''parameters'' = Inr ''reactions''"
proof -
  let ?m0 = "\<lparr>name = ''Doyle-Fuller-Newman model'', options = example_options,
          param = ''parameters'', reactions = None, submodels = [],
          workspace = None, built = False, citations = []\<rparr>
          :: (string, string, string, string list) model"
  let ?m1 = "?m0\<lparr>submodels :=
          [(''external circuit'', Base_submodel ''external circuit submodel'')]\<rparr>"
  let ?m2 = "?m1\<lparr>reactions := Some ''reactions''\<rparr>"
  let ?m3 = "?m2\<lparr>submodels :=
          [(''external circuit'', Base_submodel ''external circuit submodel''),
           (''porosity'', Porosity_Constant ''parameters'')]\<rparr>"
  have p0: "construction_prefix 0 example_base None ''Doyle-Fuller-Newman model'' = Inr ?m0"
    by (simp add: construction_prefix_def base_init_def example_base_def)
  have p1: "construction_prefix 1 example_base None ''Doyle-Fuller-Newman model'' = Inr ?m1"
    by (simp add: construction_prefix_def base_init_def example_base_def DFN_setters_def
        set_external_circuit_submodel_def inherited_setter_def register_def writable_def)
  have p2: "construction_prefix 2 example_base None ''Doyle-Fuller-Newman model'' = Inr ?m2"
    by (simp add: construction_prefix_def base_init_def example_base_def DFN_setters_def
        numeral_2_eq_2 set_external_circuit_submodel_def inherited_setter_def register_def
        writable_def set_reactions_def)
  have p3: "construction_prefix 3 example_base None ''Doyle-Fuller-Newman model'' = Inr ?m3"
    by (simp add: construction_prefix_def base_init_def example_base_def DFN_setters_def
        numeral_3_eq_3 set_external_circuit_submodel_def inherited_setter_def register_def
        writable_def set_reactions_def set_porosity_submodel_def)
  have e: "external_circuit example_base example_options ''parameters'' None =
     Inr [(''external circuit'', ''external circuit submodel'')]"
    "reactions_of example_base example_options ''parameters'' = Inr ''reactions''"
    by (simp_all add: example_base_def)
  have "reactions ?m0 = None \<and> submodels ?m0 = []"
    using external_circuit_then_reactions [OF p0] by blast
  moreover have "reactions ?m1 = None"
    using external_circuit_then_reactions [OF p1] by blast
  moreover have "reactions ?m3 \<noteq> None"
    using external_circuit_then_reactions [OF p3] by simp
  moreover have "\<exists>ext r. external_circuit example_base (options ?m2) (param ?m2) None = Inr ext \<and>
      reactions_of example_base (options ?m2) (param ?m2) = Inr r \<and> reactions ?m2 = Some r \<and>
      submodels ?m2 = dict_set_all (base_entries ext) []"
    using external_circuit_then_reactions [OF p2] by blast
  ultimately show ?thesis
    using p0 p1 p2 p3 e by simp
qed

text \<open>
  The claim as stated puts the reactions map before every submodel. After the first
  step of the construction the external circuit entry is registered and the reactions
  map is not yet computed.
\<close>

theorem reactions_after_external_circuit_counterexample:
  "construction_prefix 1 example_base None ''Doyle-Fuller-Newman model'' =
     Inr \<lparr>name = ''Doyle-Fuller-Newman model'', options = example_options,
          param = ''parameters'', reactions = None,
          submodels = [(''external circuit'', Base_submodel ''external circuit submodel'')],
          workspace = None, built = False, citations = []\<rparr>"
  by (simp add: construction_prefix_def base_init_def example_base_def DFN_setters_def
      set_external_circuit_submodel_def inherited_setter_def register_def writable_def)

section \<open>Claims on the dispatch and the geometry\<close>

text \<open>
  C4, as amended. A value that the dispatch does not know raises nothing:
  \<^verbatim>\<open>set_particle_submodel\<close> has no \<^verbatim>\<open>else\<close> branch, so for a particle option that is
  neither \<^verbatim>\<open>"Fickian diffusion"\<close> nor \<^verbatim>\<open>"fast diffusion"\<close> it returns normally and
  leaves the model as it was, with no particle entry registered; in the same way
  \<^verbatim>\<open>set_electrolyte_submodel\<close>, for a surface form that is neither \<^verbatim>\<open>False\<close>,
  \<^verbatim>\<open>"differential"\<close> nor \<^verbatim>\<open>"algebraic"\<close>, registers the electrolyte diffusion entry
  and no conductivity entry.
\<close>

theorem unknown_variant_continues:
  "(options m ''particle'' = Some v \<and> \<not> py_eq_str v ''Fickian diffusion'' \<and>
      \<not> py_eq_str v ''fast diffusion'' \<longrightarrow>
    set_particle_submodel m = Inr m) \<and>
   (options m ''surface form'' = Some u \<and> \<not> py_is_False u \<and>
      \<not> py_eq_str u ''differential'' \<and> \<not> py_eq_str u ''algebraic'' \<and>
      reactions m = Some r \<longrightarrow>
    set_electrolyte_submodel m =
      register ''electrolyte diffusion'' (Diffusion_Full (param m) r) m)"
  by (cases "built m")
    (simp_all add: set_particle_submodel_def set_electrolyte_submodel_def get_option_def
      get_reactions_def register_def writable_def)

theorem unknown_variant_continues_witness:
  "options unknown_particle_model ''particle'' = Some (PStr ''shrinking core'') \<and>
   \<not> py_eq_str (PStr ''shrinking core'') ''Fickian diffusion'' \<and>
   \<not> py_eq_str (PStr ''shrinking core'') ''fast diffusion'' \<and>
   set_particle_submodel unknown_particle_model = Inr unknown_particle_model \<and>
   options (unknown_particle_model\<lparr>options := [''surface form'' \<mapsto> PBool True]\<rparr>)
     ''surface form'' = Some (PBool True) \<and>
   \<not> py_is_False (PBool True) \<and> \<not> py_eq_str (PBool True) ''differential'' \<and>
   \<not> py_eq_str (PBool True) ''algebraic'' \<and>
   reactions (unknown_particle_model\<lparr>options := [''surface form'' \<mapsto> PBool True]\<rparr>)
     = Some ''reactions'' \<and>
   map_sum id (map fst \<circ> submodels)
     (set_electrolyte_submodel
       (unknown_particle_model\<lparr>options := [''surface form'' \<mapsto> PBool True]\<rparr>)) =
     Inr [''external circuit'', ''porosity'', ''tortuosity'', ''convection'',
          ''negative interface'', ''positive interface'', ''electrolyte diffusion'']"
proof -
  let ?m = "unknown_particle_model\<lparr>options := [''surface form'' \<mapsto> PBool True]\<rparr>"
  have h: "options unknown_particle_model ''particle'' = Some (PStr ''shrinking core'')"
    by (simp add: unknown_particle_model_def)
  have p: "set_particle_submodel unknown_particle_model = Inr unknown_particle_model"
    using unknown_variant_continues [of unknown_particle_model "PStr ''shrinking core''"] h
    by simp
  have r: "reactions ?m = Some ''reactions''" "param ?m = ''parameters''"
    by (simp_all add: unknown_particle_model_def)
  have e: "set_electrolyte_submodel ?m =
             register ''electrolyte diffusion'' (Diffusion_Full ''parameters'' ''reactions'') ?m"
    using unknown_variant_continues [of ?m _ "PBool True" "''reactions''"] r
    by (simp add: py_is_False_def)
  have k: "map_sum id (map fst \<circ> submodels) (set_electrolyte_submodel ?m) =
     Inr [''external circuit'', ''porosity'', ''tortuosity'', ''convection'',
          ''negative interface'', ''positive interface'', ''electrolyte diffusion'']"
    unfolding e by (simp add: register_def writable_def unknown_particle_model_def)
  from h p r(1) k show ?thesis
    by (simp add: py_is_False_def)
qed

text \<open>
  The claim as stated asks for a fatal error at this point. On a model whose particle
  option is \<^verbatim>\<open>"shrinking core"\<close> the setter returns the model unchanged, and the
  registry holds no particle entry.
\<close>

theorem unknown_particle_counterexample:
  "options unknown_particle_model ''particle'' = Some (PStr ''shrinking core'') \<and>
   set_particle_submodel unknown_particle_model = Inr unknown_particle_model \<and>
   map fst (submodels unknown_particle_model) =
     [''external circuit'', ''porosity'', ''tortuosity'', ''convection'',
      ''negative interface'', ''positive interface'']"
  by (simp add: unknown_particle_model_def set_particle_submodel_def get_option_def)

text \<open>
  C7. The default geometry is decided by the \<^verbatim>\<open>"dimensionality"\<close> option alone: two
  models that agree on it have the same default geometry, whatever their other options,
  parameters or registries; and the values 0, 1 and 2 give the geometries
  \<^verbatim>\<open>("1D macro", "1+1D micro")\<close>, \<^verbatim>\<open>("1+1D macro", "(1+1)+1D micro")\<close> and
  \<^verbatim>\<open>("2+1D macro", "(2+1)+1D micro")\<close>.
\<close>

theorem default_geometry_by_dimensionality:
  "(options m ''dimensionality'' = options m' ''dimensionality'' \<longrightarrow>
      default_geometry m = default_geometry m') \<and>
   (options m ''dimensionality'' = Some (PInt 0) \<longrightarrow>
      default_geometry m = Inr (Some (Geometry ''1D macro'' ''1+1D micro''))) \<and>
   (options m ''dimensionality'' = Some (PInt 1) \<longrightarrow>
      default_geometry m = Inr (Some (Geometry ''1+1D macro'' ''(1+1)+1D micro''))) \<and>
   (options m ''dimensionality'' = Some (PInt 2) \<longrightarrow>
      default_geometry m = Inr (Some (Geometry ''2+1D macro'' ''(2+1)+1D micro'')))"
  by (simp add: default_geometry_def get_option_def)

theorem default_geometry_by_dimensionality_witness:
  "options built_example ''dimensionality'' = options differential_example ''dimensionality'' \<and>
   default_geometry built_example = default_geometry differential_example \<and>
   options built_example ''dimensionality'' = Some (PInt 0) \<and>
   default_geometry built_example = Inr (Some (Geometry ''1D macro'' ''1+1D micro'')) \<and>
   options (built_example\<lparr>options := [''dimensionality'' \<mapsto> PInt 1]\<rparr>) ''dimensionality''
     = Some (PInt 1) \<and>
   default_geometry (built_example\<lparr>options := [''dimensionality'' \<mapsto> PInt 1]\<rparr>)
     = Inr (Some (Geometry ''1+1D macro'' ''(1+1)+1D micro'')) \<and>
   options (built_example\<lparr>options := [''dimensionality'' \<mapsto> PInt 2]\<rparr>) ''dimensionality''
     = Some (PInt 2) \<and>
   default_geometry (built_example\<lparr>options := [''dimensionality'' \<mapsto> PInt 2]\<rparr>)
     = Inr (Some (Geometry ''2+1D macro'' ''(2+1)+1D micro''))"
proof -
  have h: "options built_example ''dimensionality''
             = options differential_example ''dimensionality''"
    by (simp add: built_example_def differential_example_def example_options_def
        differential_options_def)
  have d0: "options built_example ''dimensionality'' = Some (PInt 0)"
    by (simp add: built_example_def example_options_def)
  have d1: "options (built_example\<lparr>options := [''dimensionality'' \<mapsto> PInt 1]\<rparr>)
              ''dimensionality'' = Some (PInt 1)"
    by simp
  have d2: "options (built_example\<lparr>options := [''dimensionality'' \<mapsto> PInt 2]\<rparr>)
              ''dimensionality'' = Some (PInt 2)"
    by simp
  have e0: "default_geometry built_example = default_geometry differential_example"
    using default_geometry_by_dimensionality [of built_example differential_example] h
    by blast
  have g0: "default_geometry built_example = Inr (Some (Geometry ''1D macro'' ''1+1D micro''))"
    using default_geometry_by_dimensionality [of built_example built_example] d0
    by blast
  have g1: "default_geometry (built_example\<lparr>options := [''dimensionality'' \<mapsto> PInt 1]\<rparr>)
              = Inr (Some (Geometry ''1+1D macro'' ''(1+1)+1D micro''))"
    using default_geometry_by_dimensionality
      [of "built_example\<lparr>options := [''dimensionality'' \<mapsto> PInt 1]\<rparr>" built_example] d1
    by blast
  have g2: "default_geometry (built_example\<lparr>options := [''dimensionality'' \<mapsto> PInt 2]\<rparr>)
              = Inr (Some (Geometry ''2+1D macro'' ''(2+1)+1D micro''))"
    using default_geometry_by_dimensionality
      [of "built_example\<lparr>options := [''dimensionality'' \<mapsto> PInt 2]\<rparr>" built_example] d2
    by blast
  from h e0 d0 g0 d1 g1 d2 g2 show ?thesis
    by blast
qed

text \<open>
  C10. When the \<^verbatim>\<open>"dimensionality"\<close> option holds a value that Python's \<^verbatim>\<open>==\<close>
  equates with none of 0, 1 and 2, the accessor falls through its branches and returns
  \<^verbatim>\<open>None\<close>: no error, no geometry. (The booleans are not such values: \<^verbatim>\<open>False == 0\<close>
  and \<^verbatim>\<open>True == 1\<close>.)
\<close>

theorem default_geometry_none:
  assumes "options m ''dimensionality'' = Some v"
    and "\<not> py_eq_int v 0" and "\<not> py_eq_int v 1" and "\<not> py_eq_int v 2"
  shows "default_geometry m = Inr None"
  using assms by (simp add: default_geometry_def get_option_def)

theorem default_geometry_none_witness:
  "options (built_example\<lparr>options := example_options(''dimensionality'' \<mapsto> PInt 3)\<rparr>)
     ''dimensionality'' = Some (PInt 3) \<and>
   \<not> py_eq_int (PInt 3) 0 \<and> \<not> py_eq_int (PInt 3) 1 \<and> \<not> py_eq_int (PInt 3) 2 \<and>
   default_geometry (built_example\<lparr>options := example_options(''dimensionality'' \<mapsto> PInt 3)\<rparr>)
     = Inr None"
  using default_geometry_none
    [of "built_example\<lparr>options := example_options(''dimensionality'' \<mapsto> PInt 3)\<rparr>" "PInt 3"]
  by simp

section \<open>Claim on the electrolyte property functions\<close>

text \<open>
  C8. The conductivity and the diffusivity of the electrolyte do not depend on the
  arguments \<^verbatim>\<open>T_inf\<close>, \<^verbatim>\<open>E_k_e\<close> and \<^verbatim>\<open>R_g\<close>: two calls with the same
  concentration and temperature give the same result whatever these three are. The
  functions read nothing but their arguments, the fixed coefficients and the base
  correlation.
\<close>

theorem electrolyte_functions_ignore_constants:
  "electrolyte_conductivity_Landesfeind2019_EC_DMC_1_1 base c_e T T_inf E_k_e R_g =
   electrolyte_conductivity_Landesfeind2019_EC_DMC_1_1 base c_e T T_inf' E_k_e' R_g' \<and>
   electrolyte_diffusivity_Landesfeind2019_EC_DMC_1_1 base' c_e T T_inf E_k_e R_g =
   electrolyte_diffusivity_Landesfeind2019_EC_DMC_1_1 base' c_e T T_inf' E_k_e' R_g'"
  by (simp add: electrolyte_conductivity_Landesfeind2019_EC_DMC_1_1_def
      electrolyte_diffusivity_Landesfeind2019_EC_DMC_1_1_def)

end
